theory Spec2Isabelle
  imports Complex_Main "HOL-Library.Char_ord" "HOL-Library.List_Lexorder"
begin

section \<open>Data model\<close>

text \<open>
  One row of the dashboard's dataset, with the columns that
  \<open>calculate_student_performance_index\<close> and the at-risk aggregation read.
  The numeric columns are pandas float64/int64 columns; their values are real
  numbers, NaN is outside this model (every cell holds a number). The index is
  modelled twice below: once in exact real arithmetic, and once with the
  arithmetic as a parameter, which has binary floating point as an instance.
  \<open>assessment_no\<close> is an integer and \<open>course_name\<close> a
  string, both ordered the way pandas sorts group keys.
\<close>

record assessment_record =
  student_id :: int
  student_name :: string
  class_level :: string
  course_name :: string
  assessment_no :: int
  assessment_score :: real
  attendance_rate :: real
  raised_hand_count :: real

type_synonym data_frame = "assessment_record list"

text \<open>The \<open>details\<close> dictionary returned by the index computation.\<close>

record spi_details =
  base_spi :: real
  academic_component :: real
  attendance_component :: real
  engagement_component :: real
  failure_penalty :: int
  trend_penalty :: int
  failed_courses :: nat
  performance_trend :: real
  normalized_engagement :: real

text \<open>The tuple \<open>(spi_score, status, status_color, details)\<close>.\<close>

record spi_result =
  spi_score :: real
  status :: string
  status_color :: string
  details :: spi_details

section \<open>pandas operations used by the computation\<close>

text \<open>
  \<open>Series.mean()\<close>: the sum over the count. On an empty series pandas yields
  NaN; the model only calls it on non-empty lists.
\<close>

definition series_mean :: "real list \<Rightarrow> real" where
  "series_mean xs = sum_list xs / real (length xs)"

text \<open>
  \<open>df.groupby(key)[col].mean()\<close>: one entry per distinct key, keys in
  ascending order, each with the mean of the column over the rows of that key.
\<close>

definition group_keys :: "(assessment_record \<Rightarrow> 'k::linorder) \<Rightarrow> data_frame \<Rightarrow> 'k list" where
  "group_keys key rows = sort (remdups (map key rows))"

definition groupby_mean ::
  "(assessment_record \<Rightarrow> 'k::linorder) \<Rightarrow> (assessment_record \<Rightarrow> real) \<Rightarrow> data_frame \<Rightarrow> ('k \<times> real) list" where
  "groupby_mean key col rows =
     map (\<lambda>k. (k, series_mean (map col (filter (\<lambda>r. key r = k) rows)))) (group_keys key rows)"

section \<open>The Student Performance Index\<close>

text \<open>
  \<open>calculate_student_performance_index(student_data, passing_score)\<close>, statement
  by statement. An empty frame makes every mean NaN in the source; that path is
  not representable over the reals and is the \<open>None\<close> result here.
\<close>

definition calculate_student_performance_index :: "data_frame \<Rightarrow> real \<Rightarrow> spi_result option" where
  "calculate_student_performance_index student_data passing_score =
    (if student_data = [] then None
     else
       let avg_score = series_mean (map assessment_score student_data);
           academic = avg_score * 0.60;
           avg_attendance = series_mean (map attendance_rate student_data);
           attendance = avg_attendance * 0.25;
           avg_engagement = series_mean (map raised_hand_count student_data);
           normalized = min (avg_engagement / 30 * 100) 100;
           engagement = normalized * 0.15;
           base = academic + attendance + engagement;
           courses_performance = groupby_mean course_name assessment_score student_data;
           failed = length (filter (\<lambda>(c, m). m < passing_score) courses_performance);
           f_penalty = (if failed = 1 then 5 else if failed \<ge> 2 then 10 else 0);
           assessment_scores = groupby_mean assessment_no assessment_score student_data;
           performance_change =
             (if length assessment_scores \<ge> 2
              then snd (last assessment_scores) - snd (hd assessment_scores)
              else 0);
           t_penalty =
             (if length assessment_scores \<ge> 2 \<and> performance_change < - 10 then 5 else 0);
           score = max 0 (min 100 (base - of_int f_penalty - of_int t_penalty))
       in Some \<lparr>
            spi_score = score,
            status =
              (if score \<ge> 80 then ''EXCELLENT''
               else if score \<ge> 65 then ''SATISFACTORY''
               else if score \<ge> 50 then ''AT RISK''
               else ''CRITICAL''),
            status_color =
              (if score \<ge> 80 then ''#2E7D32''
               else if score \<ge> 65 then ''#F57C00''
               else if score \<ge> 50 then ''#EF6C00''
               else ''#C62828''),
            details = \<lparr>
              base_spi = base,
              academic_component = academic,
              attendance_component = attendance,
              engagement_component = engagement,
              failure_penalty = f_penalty,
              trend_penalty = t_penalty,
              failed_courses = failed,
              performance_trend = performance_change,
              normalized_engagement = normalized\<rparr>\<rparr>)"

section \<open>Cohort aggregation\<close>

definition PASSING_SCORE :: real where
  "PASSING_SCORE = 60"

text \<open>
  One row of \<open>student_avg\<close> after the merge with the SPI results and the
  \<open>at_risk\<close> column: the per-student means, the first class level and name,
  the SPI score, status and colour, and the at-risk flag.
\<close>

record student_summary =
  summary_student_id :: int
  summary_assessment_score :: real
  summary_attendance_rate :: real
  summary_raised_hand_count :: real
  summary_class_level :: string
  summary_student_name :: string
  summary_spi_score :: real
  summary_status :: string
  summary_status_color :: string
  at_risk :: bool

text \<open>\<open>Series.isin(['AT RISK', 'CRITICAL'])\<close> on one status.\<close>

definition status_at_risk :: "string \<Rightarrow> bool" where
  "status_at_risk s = (s \<in> set [''AT RISK'', ''CRITICAL''])"

text \<open>
  The loop over \<open>student_avg['student_id']\<close>: the frame is filtered to the
  student's rows, the index is computed with \<open>PASSING_SCORE\<close>, and the row of
  the merged frame is built.
\<close>

definition summarise_student :: "data_frame \<Rightarrow> int \<Rightarrow> student_summary option" where
  "summarise_student df sid =
     (let student_data = filter (\<lambda>r. student_id r = sid) df
      in case calculate_student_performance_index student_data PASSING_SCORE of
           None \<Rightarrow> None
         | Some r \<Rightarrow> Some \<lparr>
             summary_student_id = sid,
             summary_assessment_score = series_mean (map assessment_score student_data),
             summary_attendance_rate = series_mean (map attendance_rate student_data),
             summary_raised_hand_count = series_mean (map raised_hand_count student_data),
             summary_class_level = class_level (hd student_data),
             summary_student_name = student_name (hd student_data),
             summary_spi_score = spi_score r,
             summary_status = status r,
             summary_status_color = status_color r,
             at_risk = status_at_risk (status r)\<rparr>)"

definition student_avg :: "data_frame \<Rightarrow> student_summary list" where
  "student_avg df = List.map_filter (summarise_student df) (group_keys student_id df)"

section \<open>The index with its arithmetic as a parameter\<close>

text \<open>
  The source computes in float64: every mean, product, quotient, sum and
  difference is rounded. The operations are not part of the source, so they are
  a parameter here: the conversion of a decimal literal, \<open>Series.mean()\<close>, the
  mean of one group of a \<open>groupby\<close>, and the four arithmetic operations.
  Comparisons and \<open>min\<close>/\<open>max\<close> are exact on float64 values and are not
  parameters; the integers 30, 100 and the penalties are converted exactly.
\<close>

record arith =
  ar_lit :: "real \<Rightarrow> real"
  ar_smean :: "real list \<Rightarrow> real"
  ar_gmean :: "real list \<Rightarrow> real"
  ar_mul :: "real \<Rightarrow> real \<Rightarrow> real"
  ar_div :: "real \<Rightarrow> real \<Rightarrow> real"
  ar_add :: "real \<Rightarrow> real \<Rightarrow> real"
  ar_sub :: "real \<Rightarrow> real \<Rightarrow> real"

definition groupby_mean_fp ::
  "arith \<Rightarrow> (assessment_record \<Rightarrow> 'k::linorder) \<Rightarrow> (assessment_record \<Rightarrow> real) \<Rightarrow> data_frame
     \<Rightarrow> ('k \<times> real) list" where
  "groupby_mean_fp ar key col rows =
     map (\<lambda>k. (k, ar_gmean ar (map col (filter (\<lambda>r. key r = k) rows)))) (group_keys key rows)"

text \<open>
  \<open>calculate_student_performance_index\<close> again, statement by statement, with
  every arithmetic step taken from the parameter. The empty frame is \<open>None\<close>
  as before.
\<close>

definition calculate_student_performance_index_fp ::
  "arith \<Rightarrow> data_frame \<Rightarrow> real \<Rightarrow> spi_result option" where
  "calculate_student_performance_index_fp ar student_data passing_score =
    (if student_data = [] then None
     else
       let avg_score = ar_smean ar (map assessment_score student_data);
           academic = ar_mul ar avg_score (ar_lit ar 0.60);
           avg_attendance = ar_smean ar (map attendance_rate student_data);
           attendance = ar_mul ar avg_attendance (ar_lit ar 0.25);
           avg_engagement = ar_smean ar (map raised_hand_count student_data);
           normalized = min (ar_mul ar (ar_div ar avg_engagement 30) 100) 100;
           engagement = ar_mul ar normalized (ar_lit ar 0.15);
           base = ar_add ar (ar_add ar academic attendance) engagement;
           courses_performance = groupby_mean_fp ar course_name assessment_score student_data;
           failed = length (filter (\<lambda>(c, m). m < passing_score) courses_performance);
           f_penalty = (if failed = 1 then 5 else if failed \<ge> 2 then 10 else 0);
           assessment_scores = groupby_mean_fp ar assessment_no assessment_score student_data;
           performance_change =
             (if length assessment_scores \<ge> 2
              then ar_sub ar (snd (last assessment_scores)) (snd (hd assessment_scores))
              else 0);
           t_penalty =
             (if length assessment_scores \<ge> 2 \<and> performance_change < - 10 then 5 else 0);
           score = max 0 (min 100 (ar_sub ar (ar_sub ar base (of_int f_penalty)) (of_int t_penalty)))
       in Some \<lparr>
            spi_score = score,
            status =
              (if score \<ge> 80 then ''EXCELLENT''
               else if score \<ge> 65 then ''SATISFACTORY''
               else if score \<ge> 50 then ''AT RISK''
               else ''CRITICAL''),
            status_color =
              (if score \<ge> 80 then ''#2E7D32''
               else if score \<ge> 65 then ''#F57C00''
               else if score \<ge> 50 then ''#EF6C00''
               else ''#C62828''),
            details = \<lparr>
              base_spi = base,
              academic_component = academic,
              attendance_component = attendance,
              engagement_component = engagement,
              failure_penalty = f_penalty,
              trend_penalty = t_penalty,
              failed_courses = failed,
              performance_trend = performance_change,
              normalized_engagement = normalized\<rparr>\<rparr>)"

text \<open>
Exact real arithmetic: the instance that gives the model of the section before.
\<close>

definition exact_arith :: arith where
  "exact_arith =
     \<lparr>ar_lit = (\<lambda>x. x), ar_smean = series_mean, ar_gmean = series_mean,
      ar_mul = (*), ar_div = (/), ar_add = (+), ar_sub = (-)\<rparr>"

section \<open>Binary floating point\<close>

text \<open>
  Rounding to the nearest float64, ties to even: the magnitude is scaled to a
  53-bit integer significand, which is rounded to the nearest integer, the even
  one on a tie. \<open>norm_exp\<close> finds the binary exponent by halving or doubling.
  The exponent is unbounded: overflow and subnormal numbers are outside this
  model.
\<close>

definition round_half_even :: "real \<Rightarrow> int" where
  "round_half_even x =
     (let n = \<lfloor>x\<rfloor>; d = x - of_int n
      in if d < 1 / 2 then n
         else if 1 / 2 < d then n + 1
         else if even n then n else n + 1)"

function norm_exp :: "real \<Rightarrow> int \<Rightarrow> int" where
  "norm_exp x e =
     (if x \<le> 0 then e
      else if x < 1 then norm_exp (2 * x) (e - 1)
      else if 2 \<le> x then norm_exp (x / 2) (e + 1)
      else e)"
  by pat_completeness auto
termination
proof (relation "measure (\<lambda>(x, e). nat \<bar>\<lfloor>log 2 x\<rfloor>\<bar>)")
  show "wf (measure (\<lambda>(x, e). nat \<bar>\<lfloor>log 2 x\<rfloor>\<bar>))" by simp
next
  fix x :: real and e :: int
  assume pos: "\<not> x \<le> 0" and small: "x < 1"
  from pos have x: "0 < x" by simp
  have "log 2 (2 * x) = 1 + log 2 x" using x by (simp add: log_mult)
  then have fl: "\<lfloor>log 2 (2 * x)\<rfloor> = 1 + \<lfloor>log 2 x\<rfloor>" by simp
  have "log 2 x < 0" using x small by simp
  then have "\<lfloor>log 2 x\<rfloor> < 0" by (simp add: floor_less_iff)
  then have "nat \<bar>1 + \<lfloor>log 2 x\<rfloor>\<bar> < nat \<bar>\<lfloor>log 2 x\<rfloor>\<bar>" by linarith
  then show "((2 * x, e - 1), (x, e)) \<in> measure (\<lambda>(x, e). nat \<bar>\<lfloor>log 2 x\<rfloor>\<bar>)"
    by (simp only: in_measure prod.case fl)
next
  fix x :: real and e :: int
  assume pos: "\<not> x \<le> 0" and "\<not> x < 1" and big: "2 \<le> x"
  from pos have x: "0 < x" by simp
  have "log 2 (x / 2) = log 2 x - 1" using x by (simp add: log_divide)
  then have fl: "\<lfloor>log 2 (x / 2)\<rfloor> = \<lfloor>log 2 x\<rfloor> - 1" by simp
  have "1 \<le> log 2 x" using big by (simp add: le_log_iff)
  then have "1 \<le> \<lfloor>log 2 x\<rfloor>" by (simp add: le_floor_iff)
  then have "nat \<bar>\<lfloor>log 2 x\<rfloor> - 1\<bar> < nat \<bar>\<lfloor>log 2 x\<rfloor>\<bar>" by linarith
  then show "((x / 2, e + 1), (x, e)) \<in> measure (\<lambda>(x, e). nat \<bar>\<lfloor>log 2 x\<rfloor>\<bar>)"
    by (simp only: in_measure prod.case fl)
qed

declare norm_exp.simps [simp del]

definition fl64 :: "real \<Rightarrow> real" where
  "fl64 x =
     (if x = 0 then 0
      else let e = norm_exp \<bar>x\<bar> 0; u = 2 powi (e - 52)
           in sgn x * of_int (round_half_even (\<bar>x\<bar> / u)) * u)"

text \<open>
  A mean is the rounded quotient of the sum by the count, the sum accumulated
  from left to right and rounded after each addition. pandas sums pairwise in
  \<open>Series.mean\<close> and with compensation in a \<open>groupby\<close>; all three give the
  same sum when a list has at most two elements or when every partial sum is
  exact, which holds for every frame evaluated below.
\<close>

definition f64_sum :: "real list \<Rightarrow> real" where
  "f64_sum xs = foldl (\<lambda>s x. fl64 (s + x)) 0 xs"

definition f64_mean :: "real list \<Rightarrow> real" where
  "f64_mean xs = fl64 (f64_sum xs / real (length xs))"

definition f64_arith :: arith where
  "f64_arith =
     \<lparr>ar_lit = fl64, ar_smean = f64_mean, ar_gmean = f64_mean,
      ar_mul = (\<lambda>a b. fl64 (a * b)), ar_div = (\<lambda>a b. fl64 (a / b)),
      ar_add = (\<lambda>a b. fl64 (a + b)), ar_sub = (\<lambda>a b. fl64 (a - b))\<rparr>"

section \<open>The parts of the computation, in exact arithmetic\<close>

text \<open>
  The intermediate quantities of \<open>calculate_student_performance_index\<close>, one
  definition per local variable of the source, so that each can be reasoned
  about on its own. \<open>spi_unfold\<close> below shows that the function returns
  exactly these.
\<close>

definition base_of :: "data_frame \<Rightarrow> real" where
  "base_of rows =
     series_mean (map assessment_score rows) * 0.60
     + series_mean (map attendance_rate rows) * 0.25
     + min (series_mean (map raised_hand_count rows) / 30 * 100) 100 * 0.15"

definition failed_of :: "data_frame \<Rightarrow> real \<Rightarrow> nat" where
  "failed_of rows p =
     length (filter (\<lambda>(c, m). m < p) (groupby_mean course_name assessment_score rows))"

definition failure_penalty_of :: "nat \<Rightarrow> int" where
  "failure_penalty_of n = (if n = 1 then 5 else if n \<ge> 2 then 10 else 0)"

definition change_of :: "data_frame \<Rightarrow> real" where
  "change_of rows =
     (if length (groupby_mean assessment_no assessment_score rows) \<ge> 2
      then snd (last (groupby_mean assessment_no assessment_score rows))
           - snd (hd (groupby_mean assessment_no assessment_score rows))
      else 0)"

definition trend_penalty_of :: "data_frame \<Rightarrow> int" where
  "trend_penalty_of rows =
     (if length (groupby_mean assessment_no assessment_score rows) \<ge> 2 \<and> change_of rows < - 10
      then 5 else 0)"

definition score_of :: "data_frame \<Rightarrow> real \<Rightarrow> real" where
  "score_of rows p =
     max 0 (min 100 (base_of rows - of_int (failure_penalty_of (failed_of rows p))
                     - of_int (trend_penalty_of rows)))"

definition status_of :: "real \<Rightarrow> string" where
  "status_of score =
     (if score \<ge> 80 then ''EXCELLENT''
      else if score \<ge> 65 then ''SATISFACTORY''
      else if score \<ge> 50 then ''AT RISK''
      else ''CRITICAL'')"

definition color_of :: "real \<Rightarrow> string" where
  "color_of score =
     (if score \<ge> 80 then ''#2E7D32''
      else if score \<ge> 65 then ''#F57C00''
      else if score \<ge> 50 then ''#EF6C00''
      else ''#C62828'')"

section \<open>Per-group means, as the specification names them\<close>

text \<open>
The mean assessment score of one course, and of one assessment number.
\<close>

definition course_mean :: "data_frame \<Rightarrow> string \<Rightarrow> real" where
  "course_mean rows c =
     series_mean (map assessment_score (filter (\<lambda>r. course_name r = c) rows))"

definition assessment_mean :: "data_frame \<Rightarrow> int \<Rightarrow> real" where
  "assessment_mean rows n =
     series_mean (map assessment_score (filter (\<lambda>r. assessment_no r = n) rows))"

section \<open>Changes to a frame\<close>

text \<open>
  Every assessment score raised by the same constant; attendance, raised hands,
  courses and assessment numbers stay as they are.
\<close>

definition shift_scores :: "real \<Rightarrow> data_frame \<Rightarrow> data_frame" where
  "shift_scores c rows = map (\<lambda>r. r\<lparr>assessment_score := assessment_score r + c\<rparr>) rows"

section \<open>The parts of the computation, with the arithmetic as a parameter\<close>

definition base_fp :: "arith \<Rightarrow> data_frame \<Rightarrow> real" where
  "base_fp ar rows =
     ar_add ar
       (ar_add ar
          (ar_mul ar (ar_smean ar (map assessment_score rows)) (ar_lit ar 0.60))
          (ar_mul ar (ar_smean ar (map attendance_rate rows)) (ar_lit ar 0.25)))
       (ar_mul ar
          (min (ar_mul ar (ar_div ar (ar_smean ar (map raised_hand_count rows)) 30) 100) 100)
          (ar_lit ar 0.15))"

definition failed_fp :: "arith \<Rightarrow> data_frame \<Rightarrow> real \<Rightarrow> nat" where
  "failed_fp ar rows p =
     length (filter (\<lambda>(c, m). m < p) (groupby_mean_fp ar course_name assessment_score rows))"

definition change_fp :: "arith \<Rightarrow> data_frame \<Rightarrow> real" where
  "change_fp ar rows =
     (if length (groupby_mean_fp ar assessment_no assessment_score rows) \<ge> 2
      then ar_sub ar (snd (last (groupby_mean_fp ar assessment_no assessment_score rows)))
                     (snd (hd (groupby_mean_fp ar assessment_no assessment_score rows)))
      else 0)"

definition trend_penalty_fp :: "arith \<Rightarrow> data_frame \<Rightarrow> int" where
  "trend_penalty_fp ar rows =
     (if length (groupby_mean_fp ar assessment_no assessment_score rows) \<ge> 2
         \<and> change_fp ar rows < - 10
      then 5 else 0)"

definition score_fp :: "arith \<Rightarrow> data_frame \<Rightarrow> real \<Rightarrow> real" where
  "score_fp ar rows p =
     max 0 (min 100 (ar_sub ar
       (ar_sub ar (base_fp ar rows) (of_int (failure_penalty_of (failed_fp ar rows p))))
       (of_int (trend_penalty_fp ar rows))))"

definition course_mean_fp :: "arith \<Rightarrow> data_frame \<Rightarrow> string \<Rightarrow> real" where
  "course_mean_fp ar rows c =
     ar_gmean ar (map assessment_score (filter (\<lambda>r. course_name r = c) rows))"

definition assessment_mean_fp :: "arith \<Rightarrow> data_frame \<Rightarrow> int \<Rightarrow> real" where
  "assessment_mean_fp ar rows n =
     ar_gmean ar (map assessment_score (filter (\<lambda>r. assessment_no r = n) rows))"

section \<open>Example frames\<close>

definition mk_row :: "string \<Rightarrow> int \<Rightarrow> real \<Rightarrow> real \<Rightarrow> real \<Rightarrow> assessment_record" where
  "mk_row course no score att hands =
     \<lparr>student_id = 1, student_name = ''Sam'', class_level = ''C1'',
      course_name = course, assessment_no = no, assessment_score = score,
      attendance_rate = att, raised_hand_count = hands\<rparr>"

definition scenario_rows :: data_frame where
  "scenario_rows = [mk_row ''Math'' 1 90 100 30, mk_row ''Math'' 2 90 100 30]"

definition pathological_rows :: data_frame where
  "pathological_rows = [mk_row ''Math'' 1 0 0 1000, mk_row ''Math'' 2 0 0 1000]"

definition below_zero_rows :: data_frame where
  "below_zero_rows = [mk_row ''Math'' 1 0 0 0]"

definition above_hundred_rows :: data_frame where
  "above_hundred_rows = [mk_row ''Math'' 1 150 100 30]"

definition capped_rows :: data_frame where
  "capped_rows = [mk_row ''Math'' 1 70 80 40, mk_row ''Art'' 1 90 100 50]"

definition band_rows :: "real \<Rightarrow> real \<Rightarrow> real \<Rightarrow> data_frame" where
  "band_rows score att hands = [mk_row ''Math'' 1 score att hands]"

definition boundary_course_rows :: data_frame where
  "boundary_course_rows =
     [mk_row ''Math'' 1 50 90 10, mk_row ''Math'' 2 70 90 10,
      mk_row ''Art'' 1 40 90 10, mk_row ''Art'' 2 40 90 10]"

definition many_failed_rows :: data_frame where
  "many_failed_rows =
     [mk_row ''Math'' 1 30 90 10, mk_row ''Art'' 1 40 90 10,
      mk_row ''Music'' 1 50 90 10, mk_row ''Physics'' 1 95 90 10]"

definition declining_rows :: data_frame where
  "declining_rows =
     [mk_row ''Math'' 3 60 90 10, mk_row ''Math'' 1 90 90 10,
      mk_row ''Math'' 2 85 90 10, mk_row ''Art'' 1 70 90 10]"

definition drop_of_ten_rows :: data_frame where
  "drop_of_ten_rows = [mk_row ''Math'' 1 80 90 10, mk_row ''Math'' 2 70 90 10]"

definition failing_course_rows :: data_frame where
  "failing_course_rows = [mk_row ''Math'' 1 40 50 0, mk_row ''Art'' 1 90 50 0]"

definition endpoint_rows :: data_frame where
  "endpoint_rows = [mk_row ''Math'' 1 80 90 10, mk_row ''Math'' 3 75 90 10]"

definition middle_dip :: data_frame where
  "middle_dip = [mk_row ''Math'' 2 10 90 10]"

definition dipped_rows :: data_frame where
  "dipped_rows =
     [mk_row ''Math'' 1 80 90 10, mk_row ''Math'' 2 10 90 10, mk_row ''Math'' 3 75 90 10]"

definition cohort_rows :: data_frame where
  "cohort_rows =
     [mk_row ''Math'' 1 80 80 24,
      (mk_row ''Math'' 1 60 40 8)\<lparr>student_id := 2, student_name := ''Kim''\<rparr>]"

text \<open>
  One course with three rows for each of two assessments, the second ten
  points below the first; a course whose two scores are the float64 values
  nearest to 40.4 and 79.6; and a ten-point drop on higher scores.
\<close>

definition dropping_rows :: data_frame where
  "dropping_rows =
     [mk_row ''Math'' 1 10 100 30, mk_row ''Math'' 1 11 100 30, mk_row ''Math'' 1 11 100 30,
      mk_row ''Math'' 2 0 100 30, mk_row ''Math'' 2 1 100 30, mk_row ''Math'' 2 1 100 30]"

definition rounded_mean_rows :: data_frame where
  "rounded_mean_rows =
     [mk_row ''Math'' 1 (fl64 (404 / 10)) 90 10, mk_row ''Math'' 2 (fl64 (796 / 10)) 90 10]"

definition ten_point_drop_rows :: data_frame where
  "ten_point_drop_rows =
     [mk_row ''Math'' 1 65 90 10, mk_row ''Math'' 1 66 90 10, mk_row ''Math'' 1 66 90 10,
      mk_row ''Math'' 2 55 90 10, mk_row ''Math'' 2 56 90 10, mk_row ''Math'' 2 56 90 10]"

section \<open>Facts about grouping\<close>

lemmas eval_defs = mk_row_def series_mean_def groupby_mean_def group_keys_def

lemma set_group_keys: "set (group_keys key rows) = key ` set rows"
  by (simp add: group_keys_def)

lemma distinct_group_keys: "distinct (group_keys key rows)"
  by (simp add: group_keys_def)

lemma sorted_group_keys: "sorted (group_keys key rows)"
  by (simp add: group_keys_def)

lemma group_keys_nonempty: "rows \<noteq> [] \<Longrightarrow> group_keys key rows \<noteq> []"
  using set_group_keys [of key rows] by (metis empty_is_image set_empty)

lemma length_group_keys: "length (group_keys key rows) = card (key ` set rows)"
  using distinct_card [OF distinct_group_keys, of key rows] by (simp add: set_group_keys)

lemma length_groupby_mean: "length (groupby_mean key col rows) = card (key ` set rows)"
  by (simp add: groupby_mean_def length_group_keys)

lemma group_nonempty:
  assumes "k \<in> key ` set rows"
  shows "filter (\<lambda>r. key r = k) rows \<noteq> []"
  using assms by (auto simp: filter_empty_conv)

lemma sorted_hd_Min:
  fixes xs :: "'a::linorder list"
  assumes "sorted xs" "xs \<noteq> []"
  shows "hd xs = Min (set xs)"
  using assms by (cases xs) (auto intro!: Min_eqI [symmetric])

lemma sorted_last_Max:
  fixes xs :: "'a::linorder list"
  assumes "sorted xs" "xs \<noteq> []"
  shows "last xs = Max (set xs)"
  using assms
proof (induction xs)
  case Nil
  then show ?case by simp
next
  case (Cons a as)
  show ?case
  proof (cases "as = []")
    case True
    then show ?thesis by simp
  next
    case False
    with Cons have eq: "last as = Max (set as)" by simp
    from False have "last as \<in> set as" by simp
    with Cons.prems have "a \<le> last as" by simp
    with eq have "a \<le> Max (set as)" by simp
    with eq False show ?thesis by (simp add: max_absorb2)
  qed
qed

text \<open>
  Counting the groups whose mean is below a threshold counts the keys with
  that property: the group keys are distinct.
\<close>

lemma count_below:
  "length (filter (\<lambda>(k, m). m < p) (groupby_mean key col rows)) =
   card {k \<in> key ` set rows. series_mean (map col (filter (\<lambda>r. key r = k) rows)) < p}"
proof -
  let ?f = "\<lambda>k. series_mean (map col (filter (\<lambda>r. key r = k) rows))"
  have "length (filter (\<lambda>(k, m). m < p) (groupby_mean key col rows)) =
        length (filter (\<lambda>k. ?f k < p) (group_keys key rows))"
    by (simp add: groupby_mean_def filter_map comp_def)
  also have "\<dots> = card ({k. ?f k < p} \<inter> set (group_keys key rows))"
    by (rule distinct_length_filter [OF distinct_group_keys])
  also have "{k. ?f k < p} \<inter> set (group_keys key rows) = {k \<in> key ` set rows. ?f k < p}"
    by (auto simp: set_group_keys)
  finally show ?thesis .
qed

text \<open>
The first and the last group are those of the least and the greatest key.
\<close>

lemma hd_groupby_mean:
  assumes "rows \<noteq> []"
  shows "snd (hd (groupby_mean key col rows)) =
         series_mean (map col (filter (\<lambda>r. key r = Min (key ` set rows)) rows))"
proof -
  have ne: "group_keys key rows \<noteq> []" using assms by (rule group_keys_nonempty)
  have "hd (group_keys key rows) = Min (key ` set rows)"
    using sorted_hd_Min [OF sorted_group_keys ne] by (simp add: set_group_keys)
  then show ?thesis using ne by (simp add: groupby_mean_def hd_map)
qed

lemma last_groupby_mean:
  assumes "rows \<noteq> []"
  shows "snd (last (groupby_mean key col rows)) =
         series_mean (map col (filter (\<lambda>r. key r = Max (key ` set rows)) rows))"
proof -
  have ne: "group_keys key rows \<noteq> []" using assms by (rule group_keys_nonempty)
  have "last (group_keys key rows) = Max (key ` set rows)"
    using sorted_last_Max [OF sorted_group_keys ne] by (simp add: set_group_keys)
  then show ?thesis using ne by (simp add: groupby_mean_def last_map)
qed

lemma length_groupby_mean_fp:
  "length (groupby_mean_fp ar key col rows) = card (key ` set rows)"
  by (simp add: groupby_mean_fp_def length_group_keys)

lemma count_below_fp:
  "length (filter (\<lambda>(k, m). m < p) (groupby_mean_fp ar key col rows)) =
   card {k \<in> key ` set rows. ar_gmean ar (map col (filter (\<lambda>r. key r = k) rows)) < p}"
proof -
  let ?f = "\<lambda>k. ar_gmean ar (map col (filter (\<lambda>r. key r = k) rows))"
  have "length (filter (\<lambda>(k, m). m < p) (groupby_mean_fp ar key col rows)) =
        length (filter (\<lambda>k. ?f k < p) (group_keys key rows))"
    by (simp add: groupby_mean_fp_def filter_map comp_def)
  also have "\<dots> = card ({k. ?f k < p} \<inter> set (group_keys key rows))"
    by (rule distinct_length_filter [OF distinct_group_keys])
  also have "{k. ?f k < p} \<inter> set (group_keys key rows) = {k \<in> key ` set rows. ?f k < p}"
    by (auto simp: set_group_keys)
  finally show ?thesis .
qed

lemma hd_groupby_mean_fp:
  assumes "rows \<noteq> []"
  shows "snd (hd (groupby_mean_fp ar key col rows)) =
         ar_gmean ar (map col (filter (\<lambda>r. key r = Min (key ` set rows)) rows))"
proof -
  have ne: "group_keys key rows \<noteq> []" using assms by (rule group_keys_nonempty)
  have "hd (group_keys key rows) = Min (key ` set rows)"
    using sorted_hd_Min [OF sorted_group_keys ne] by (simp add: set_group_keys)
  then show ?thesis using ne by (simp add: groupby_mean_fp_def hd_map)
qed

lemma last_groupby_mean_fp:
  assumes "rows \<noteq> []"
  shows "snd (last (groupby_mean_fp ar key col rows)) =
         ar_gmean ar (map col (filter (\<lambda>r. key r = Max (key ` set rows)) rows))"
proof -
  have ne: "group_keys key rows \<noteq> []" using assms by (rule group_keys_nonempty)
  have "last (group_keys key rows) = Max (key ` set rows)"
    using sorted_last_Max [OF sorted_group_keys ne] by (simp add: set_group_keys)
  then show ?thesis using ne by (simp add: groupby_mean_fp_def last_map)
qed

section \<open>The result in terms of its parts\<close>

lemmas part_defs = base_of_def failed_of_def failure_penalty_of_def change_of_def
  trend_penalty_of_def score_of_def status_of_def color_of_def

lemma spi_unfold:
  assumes "rows \<noteq> []"
  shows "calculate_student_performance_index rows p =
     Some \<lparr>spi_score = score_of rows p,
            status = status_of (score_of rows p),
            status_color = color_of (score_of rows p),
            details = \<lparr>
              base_spi = base_of rows,
              academic_component = series_mean (map assessment_score rows) * 0.60,
              attendance_component = series_mean (map attendance_rate rows) * 0.25,
              engagement_component =
                min (series_mean (map raised_hand_count rows) / 30 * 100) 100 * 0.15,
              failure_penalty = failure_penalty_of (failed_of rows p),
              trend_penalty = trend_penalty_of rows,
              failed_courses = failed_of rows p,
              performance_trend = change_of rows,
              normalized_engagement =
                min (series_mean (map raised_hand_count rows) / 30 * 100) 100\<rparr>\<rparr>"
  unfolding calculate_student_performance_index_def Let_def part_defs
  using assms by (simp only: if_False)

lemma spi_score_eq:
  assumes "calculate_student_performance_index rows p = Some r" "rows \<noteq> []"
  shows "spi_score r = score_of rows p"
  using assms by (auto simp: spi_unfold)

lemma failed_courses_eq:
  assumes "calculate_student_performance_index rows p = Some r" "rows \<noteq> []"
  shows "failed_courses (details r) = failed_of rows p"
  using assms by (auto simp: spi_unfold)

lemma failed_of_card:
  "failed_of rows p = card {c \<in> course_name ` set rows. course_mean rows c < p}"
  by (simp add: failed_of_def count_below course_mean_def)

lemma failure_penalty_step:
  "failure_penalty_of n = (if n = 0 then 0 else if n = 1 then 5 else 10)"
  by (simp add: failure_penalty_of_def)

lemma change_of_char:
  assumes "rows \<noteq> []"
  shows "change_of rows =
     (if 2 \<le> card (assessment_no ` set rows)
      then assessment_mean rows (Max (assessment_no ` set rows))
           - assessment_mean rows (Min (assessment_no ` set rows))
      else 0)"
  by (simp add: change_of_def length_groupby_mean hd_groupby_mean [OF assms]
      last_groupby_mean [OF assms] assessment_mean_def)

lemma trend_penalty_of_char:
  "trend_penalty_of rows =
     (if 2 \<le> card (assessment_no ` set rows) \<and> change_of rows < - 10 then 5 else 0)"
  by (simp add: trend_penalty_of_def length_groupby_mean)

lemma clamp_mono: "(x::real) \<le> y \<Longrightarrow> max 0 (min 100 x) \<le> max 0 (min 100 y)"
  by (simp add: max_def min_def)

lemma length_filter_mono:
  assumes "\<And>x. x \<in> set xs \<Longrightarrow> P x \<Longrightarrow> Q x"
  shows "length (filter P xs) \<le> length (filter Q xs)"
  using assms by (induction xs) auto

section \<open>The parametric result in terms of its parts\<close>

lemmas part_fp_defs = base_fp_def failed_fp_def failure_penalty_of_def change_fp_def
  trend_penalty_fp_def score_fp_def status_of_def color_of_def

lemma spi_fp_unfold:
  assumes "rows \<noteq> []"
  shows "calculate_student_performance_index_fp ar rows p =
     Some \<lparr>spi_score = score_fp ar rows p,
            status = status_of (score_fp ar rows p),
            status_color = color_of (score_fp ar rows p),
            details = \<lparr>
              base_spi = base_fp ar rows,
              academic_component =
                ar_mul ar (ar_smean ar (map assessment_score rows)) (ar_lit ar 0.60),
              attendance_component =
                ar_mul ar (ar_smean ar (map attendance_rate rows)) (ar_lit ar 0.25),
              engagement_component =
                ar_mul ar
                  (min (ar_mul ar (ar_div ar (ar_smean ar (map raised_hand_count rows)) 30) 100) 100)
                  (ar_lit ar 0.15),
              failure_penalty = failure_penalty_of (failed_fp ar rows p),
              trend_penalty = trend_penalty_fp ar rows,
              failed_courses = failed_fp ar rows p,
              performance_trend = change_fp ar rows,
              normalized_engagement =
                min (ar_mul ar (ar_div ar (ar_smean ar (map raised_hand_count rows)) 30) 100) 100\<rparr>\<rparr>"
  unfolding calculate_student_performance_index_fp_def Let_def part_fp_defs
  using assms by (simp only: if_False)

lemma failed_fp_card:
  "failed_fp ar rows p = card {c \<in> course_name ` set rows. course_mean_fp ar rows c < p}"
  by (simp add: failed_fp_def count_below_fp course_mean_fp_def)

lemma change_fp_char:
  assumes "rows \<noteq> []"
  shows "change_fp ar rows =
     (if 2 \<le> card (assessment_no ` set rows)
      then ar_sub ar (assessment_mean_fp ar rows (Max (assessment_no ` set rows)))
                     (assessment_mean_fp ar rows (Min (assessment_no ` set rows)))
      else 0)"
  by (simp add: change_fp_def length_groupby_mean_fp hd_groupby_mean_fp [OF assms]
      last_groupby_mean_fp [OF assms] assessment_mean_fp_def)

lemma trend_penalty_fp_char:
  "trend_penalty_fp ar rows =
     (if 2 \<le> card (assessment_no ` set rows) \<and> change_fp ar rows < - 10 then 5 else 0)"
  by (simp add: trend_penalty_fp_def length_groupby_mean_fp)

text \<open>
With exact arithmetic the parametric model is the real-number model.
\<close>

lemma exact_arith_ops:
  "ar_lit exact_arith x = x"
  "ar_smean exact_arith xs = series_mean xs"
  "ar_gmean exact_arith xs = series_mean xs"
  "ar_mul exact_arith a b = a * b"
  "ar_div exact_arith a b = a / b"
  "ar_add exact_arith a b = a + b"
  "ar_sub exact_arith a b = a - b"
  by (simp_all add: exact_arith_def)

lemmas exact_defs = exact_arith_ops series_mean_def

lemma groupby_mean_exact: "groupby_mean_fp exact_arith key col rows = groupby_mean key col rows"
  by (simp add: groupby_mean_fp_def groupby_mean_def exact_arith_def)

lemma exact_arith_is_real_model:
  "calculate_student_performance_index_fp exact_arith rows p
     = calculate_student_performance_index rows p"
  unfolding calculate_student_performance_index_fp_def calculate_student_performance_index_def
    groupby_mean_exact
  by (simp only: exact_arith_def arith.simps)

lemmas f64_defs = f64_arith_def f64_mean_def f64_sum_def fl64_def norm_exp.simps
  round_half_even_def Let_def

lemmas eval_fp_defs = mk_row_def groupby_mean_fp_def group_keys_def

section \<open>The index on a fixed scenario\<close>

lemma scenario_means:
  "series_mean (map assessment_score scenario_rows) = 90"
  "series_mean (map attendance_rate scenario_rows) = 100"
  "series_mean (map raised_hand_count scenario_rows) = 30"
  by (simp_all add: scenario_rows_def eval_defs)

lemma scenario_base: "base_of scenario_rows = 94"
  by (simp add: base_of_def scenario_means)

lemma scenario_failed: "failed_of scenario_rows 60 = 0"
  by (simp add: failed_of_def scenario_rows_def eval_defs)

lemma scenario_change: "change_of scenario_rows = 0"
  by (simp add: change_of_def scenario_rows_def eval_defs)

lemma scenario_trend: "trend_penalty_of scenario_rows = 0"
  by (simp add: trend_penalty_of_def scenario_change)

lemma scenario_score: "score_of scenario_rows 60 = 94"
  by (simp add: score_of_def scenario_base scenario_failed scenario_trend failure_penalty_of_def)

text \<open>
  C9. One course, two assessments with score 90 each, attendance 100, 30 raised
  hands and passing score 60: the academic component is 54, the attendance
  component 25, the engagement component 15, the base SPI 94, no course failed,
  no trend penalty, the final score is 94 and the status is EXCELLENT.
\<close>

theorem scenario_single_course_excellent:
  "calculate_student_performance_index scenario_rows 60 =
     Some \<lparr>spi_score = 94, status = ''EXCELLENT'', status_color = ''#2E7D32'',
       details = \<lparr>base_spi = 94, academic_component = 54, attendance_component = 25,
         engagement_component = 15, failure_penalty = 0, trend_penalty = 0,
         failed_courses = 0, performance_trend = 0, normalized_engagement = 100\<rparr>\<rparr>"
proof -
  have ne: "scenario_rows \<noteq> []" by (simp add: scenario_rows_def)
  show ?thesis
    unfolding spi_unfold [OF ne]
    by (simp add: scenario_score scenario_base scenario_failed scenario_change scenario_trend
        scenario_means status_of_def color_of_def failure_penalty_of_def)
qed

section \<open>Final score and clamping\<close>

text \<open>
  C1. For every non-empty record set and every passing score, whatever the
  rounding of the arithmetic: the base SPI is the weighted sum of the three
  means of the input, the failure penalty is 0, 5 or 10 by the number of courses
  of the input whose mean is below the passing score, the trend penalty is 5
  exactly when there are two assessment numbers and the mean of the last is more
  than 10 below the mean of the first, and the returned score is the base SPI
  minus the failure penalty minus the trend penalty, clamped to the interval
  from 0 to 100; so it always lies in that interval.
\<close>

theorem score_clamped_from_input:
  assumes "student_data \<noteq> []"
  shows "\<exists>r. calculate_student_performance_index_fp ar student_data passing_score = Some r \<and>
     base_spi (details r) =
       ar_add ar
         (ar_add ar
            (ar_mul ar (ar_smean ar (map assessment_score student_data)) (ar_lit ar 0.60))
            (ar_mul ar (ar_smean ar (map attendance_rate student_data)) (ar_lit ar 0.25)))
         (ar_mul ar
            (min (ar_mul ar (ar_div ar (ar_smean ar (map raised_hand_count student_data)) 30) 100)
                 100)
            (ar_lit ar 0.15)) \<and>
     failure_penalty (details r) =
       (let n = card {c \<in> course_name ` set student_data.
                        course_mean_fp ar student_data c < passing_score}
        in if n = 0 then 0 else if n = 1 then 5 else 10) \<and>
     trend_penalty (details r) =
       (if 2 \<le> card (assessment_no ` set student_data) \<and>
           ar_sub ar
             (assessment_mean_fp ar student_data (Max (assessment_no ` set student_data)))
             (assessment_mean_fp ar student_data (Min (assessment_no ` set student_data))) < - 10
        then 5 else 0) \<and>
     spi_score r =
       max 0 (min 100 (ar_sub ar
         (ar_sub ar (base_spi (details r)) (real_of_int (failure_penalty (details r))))
         (real_of_int (trend_penalty (details r))))) \<and>
     0 \<le> spi_score r \<and> spi_score r \<le> 100"
proof -
  have fp: "failure_penalty_of (failed_fp ar student_data passing_score) =
       (let n = card {c \<in> course_name ` set student_data.
                        course_mean_fp ar student_data c < passing_score}
        in if n = 0 then 0 else if n = 1 then 5 else 10)"
    unfolding Let_def failed_fp_card [symmetric] by (rule failure_penalty_step)
  have tp: "trend_penalty_fp ar student_data =
       (if 2 \<le> card (assessment_no ` set student_data) \<and>
           ar_sub ar
             (assessment_mean_fp ar student_data (Max (assessment_no ` set student_data)))
             (assessment_mean_fp ar student_data (Min (assessment_no ` set student_data))) < - 10
        then 5 else 0)"
    by (simp add: trend_penalty_fp_char change_fp_char [OF assms])
  have sc: "score_fp ar student_data passing_score =
       max 0 (min 100 (ar_sub ar
         (ar_sub ar (base_fp ar student_data)
            (real_of_int (failure_penalty_of (failed_fp ar student_data passing_score))))
         (real_of_int (trend_penalty_fp ar student_data))))"
    by (simp only: score_fp_def)
  have rng: "0 \<le> score_fp ar student_data passing_score"
    "score_fp ar student_data passing_score \<le> 100"
    by (simp_all add: score_fp_def)
  show ?thesis
    unfolding spi_fp_unfold [OF assms]
    apply (simp only: option.inject simp_thms ex_simps spi_result.simps spi_details.simps)
    apply (intro conjI)
    apply (simp only: base_fp_def)
    apply (rule fp)
    apply (rule tp)
    apply (rule sc)
    apply (rule rng)+
    done
qed

text \<open>
  The pathological frame of the specification: every score 0 and a mean of 1000
  raised hands. The engagement is capped at 100, the base SPI is 15, the one
  course fails, and the score is 10. All values are exact in float64 as well.
\<close>

lemma pathological_fp_parts:
  "base_fp exact_arith pathological_rows = 15"
  "failed_fp exact_arith pathological_rows 60 = 1"
  "card (assessment_no ` set pathological_rows) = 2"
  "Max (assessment_no ` set pathological_rows) = 2"
  "Min (assessment_no ` set pathological_rows) = 1"
  "assessment_mean_fp exact_arith pathological_rows 1 = 0"
  "assessment_mean_fp exact_arith pathological_rows 2 = 0"
  by (simp_all add: base_fp_def failed_fp_def assessment_mean_fp_def pathological_rows_def
      eval_fp_defs exact_defs card_insert_if)

theorem score_clamped_from_input_witness:
  "pathological_rows \<noteq> [] \<and>
   (\<exists>r. calculate_student_performance_index_fp exact_arith pathological_rows 60 = Some r \<and>
      base_spi (details r) = 15 \<and> failure_penalty (details r) = 5 \<and>
      trend_penalty (details r) = 0 \<and> spi_score r = 10)"
proof -
  have ne: "pathological_rows \<noteq> []" by (simp add: pathological_rows_def)
  from score_clamped_from_input [OF ne, of exact_arith 60] obtain r where
    r: "calculate_student_performance_index_fp exact_arith pathological_rows 60 = Some r"
    and b: "base_spi (details r) = base_fp exact_arith pathological_rows"
    and f: "failure_penalty (details r) =
       (let n = failed_fp exact_arith pathological_rows 60
        in if n = 0 then 0 else if n = 1 then 5 else 10)"
    and t: "trend_penalty (details r) =
       (if 2 \<le> card (assessment_no ` set pathological_rows) \<and>
           ar_sub exact_arith
             (assessment_mean_fp exact_arith pathological_rows
                (Max (assessment_no ` set pathological_rows)))
             (assessment_mean_fp exact_arith pathological_rows
                (Min (assessment_no ` set pathological_rows))) < - 10
        then 5 else 0)"
    and s: "spi_score r =
       max 0 (min 100 (ar_sub exact_arith
         (ar_sub exact_arith (base_spi (details r)) (real_of_int (failure_penalty (details r))))
         (real_of_int (trend_penalty (details r)))))"
    unfolding base_fp_def failed_fp_card by blast
  have b': "base_spi (details r) = 15" using b by (simp only: pathological_fp_parts)
  have f': "failure_penalty (details r) = 5" using f by (simp add: pathological_fp_parts)
  have t': "trend_penalty (details r) = 0"
    using t by (simp add: pathological_fp_parts exact_arith_ops)
  have "spi_score r = 10" using s by (simp add: b' f' t' exact_arith_ops)
  with ne r b' f' t' show ?thesis by blast
qed

section \<open>Base SPI and its components\<close>

text \<open>
  C2. For every non-empty record set, the base SPI is the mean assessment
  score times 0.60, plus the mean attendance rate times 0.25, plus the
  normalised engagement times 0.15, where the normalised engagement is the mean
  raised-hand count divided by 30, times 100, capped at 100. The three addends
  are returned as the academic, attendance and engagement components of the
  breakdown, and the capped value as the normalised engagement.
\<close>

theorem base_spi_components:
  assumes "student_data \<noteq> []"
  shows "\<exists>r. calculate_student_performance_index student_data passing_score = Some r \<and>
     academic_component (details r) = series_mean (map assessment_score student_data) * 0.60 \<and>
     attendance_component (details r) = series_mean (map attendance_rate student_data) * 0.25 \<and>
     normalized_engagement (details r) =
        min (series_mean (map raised_hand_count student_data) / 30 * 100) 100 \<and>
     engagement_component (details r) = normalized_engagement (details r) * 0.15 \<and>
     base_spi (details r) =
        series_mean (map assessment_score student_data) * 0.60
        + series_mean (map attendance_rate student_data) * 0.25
        + min (series_mean (map raised_hand_count student_data) / 30 * 100) 100 * 0.15 \<and>
     base_spi (details r) = academic_component (details r) + attendance_component (details r)
        + engagement_component (details r)"
  unfolding spi_unfold [OF assms] by (simp add: base_of_def)

text \<open>
  A frame whose mean raised-hand count, 45, exceeds the ceiling of 30: the
  normalised engagement is capped at 100.
\<close>

lemma capped_means:
  "series_mean (map assessment_score capped_rows) = 80"
  "series_mean (map attendance_rate capped_rows) = 90"
  "series_mean (map raised_hand_count capped_rows) = 45"
  by (simp_all add: capped_rows_def eval_defs)

theorem base_spi_components_witness:
  "capped_rows \<noteq> [] \<and>
   (\<exists>r. calculate_student_performance_index capped_rows 60 = Some r \<and>
     academic_component (details r) = 48 \<and>
     attendance_component (details r) = 22.5 \<and>
     normalized_engagement (details r) = 100 \<and>
     engagement_component (details r) = 15 \<and>
     base_spi (details r) = 85.5)"
proof -
  have ne: "capped_rows \<noteq> []" by (simp add: capped_rows_def)
  from base_spi_components [OF ne, of 60] obtain r where
    "calculate_student_performance_index capped_rows 60 = Some r"
    "academic_component (details r) = series_mean (map assessment_score capped_rows) * 0.60"
    "attendance_component (details r) = series_mean (map attendance_rate capped_rows) * 0.25"
    "normalized_engagement (details r) =
        min (series_mean (map raised_hand_count capped_rows) / 30 * 100) 100"
    "engagement_component (details r) = normalized_engagement (details r) * 0.15"
    "base_spi (details r) = academic_component (details r) + attendance_component (details r)
        + engagement_component (details r)"
    by blast
  then have "calculate_student_performance_index capped_rows 60 = Some r \<and>
     academic_component (details r) = 48 \<and>
     attendance_component (details r) = 22.5 \<and>
     normalized_engagement (details r) = 100 \<and>
     engagement_component (details r) = 15 \<and>
     base_spi (details r) = 85.5"
    by (simp add: capped_means)
  with ne show ?thesis by blast
qed

section \<open>Status classification\<close>

text \<open>
  C3. For every non-empty record set, the status depends on the final score
  only, with closed lower bounds: a score of at least 80 is EXCELLENT, from 65
  up to but excluding 80 SATISFACTORY, from 50 up to but excluding 65 AT RISK,
  and below 50 CRITICAL; each status comes with its fixed colour.
\<close>

theorem status_bands:
  assumes "student_data \<noteq> []"
  shows "\<exists>r. calculate_student_performance_index student_data passing_score = Some r \<and>
     (80 \<le> spi_score r \<longrightarrow> status r = ''EXCELLENT'' \<and> status_color r = ''#2E7D32'') \<and>
     (65 \<le> spi_score r \<and> spi_score r < 80 \<longrightarrow>
         status r = ''SATISFACTORY'' \<and> status_color r = ''#F57C00'') \<and>
     (50 \<le> spi_score r \<and> spi_score r < 65 \<longrightarrow>
         status r = ''AT RISK'' \<and> status_color r = ''#EF6C00'') \<and>
     (spi_score r < 50 \<longrightarrow> status r = ''CRITICAL'' \<and> status_color r = ''#C62828'')"
  unfolding spi_unfold [OF assms] by (simp add: status_of_def color_of_def)

text \<open>
  Frames whose scores are exactly 80, 65 and 50, and one below 50: each
  boundary belongs to the band above it.
\<close>

lemma band_rows_nonempty: "band_rows score att hands \<noteq> []"
  by (simp add: band_rows_def)

lemma band_rows_scores:
  "score_of (band_rows 80 80 24) 60 = 80"
  "score_of (band_rows 70 60 16) 60 = 65"
  "score_of (band_rows 60 40 8) 60 = 50"
  "score_of (band_rows 40 40 8) 60 = 33"
  by (simp_all add: score_of_def base_of_def failed_of_def trend_penalty_of_def change_of_def
      failure_penalty_of_def band_rows_def eval_defs)

theorem status_bands_witness:
  "(\<exists>r. calculate_student_performance_index (band_rows 80 80 24) 60 = Some r \<and>
        spi_score r = 80 \<and> status r = ''EXCELLENT'' \<and> status_color r = ''#2E7D32'') \<and>
   (\<exists>r. calculate_student_performance_index (band_rows 70 60 16) 60 = Some r \<and>
        spi_score r = 65 \<and> status r = ''SATISFACTORY'' \<and> status_color r = ''#F57C00'') \<and>
   (\<exists>r. calculate_student_performance_index (band_rows 60 40 8) 60 = Some r \<and>
        spi_score r = 50 \<and> status r = ''AT RISK'' \<and> status_color r = ''#EF6C00'') \<and>
   (\<exists>r. calculate_student_performance_index (band_rows 40 40 8) 60 = Some r \<and>
        spi_score r = 33 \<and> status r = ''CRITICAL'' \<and> status_color r = ''#C62828'')"
proof (intro conjI)
  from status_bands [OF band_rows_nonempty, of 80 80 24 60] obtain r where
    r: "calculate_student_performance_index (band_rows 80 80 24) 60 = Some r"
    and b: "80 \<le> spi_score r \<longrightarrow> status r = ''EXCELLENT'' \<and> status_color r = ''#2E7D32''"
    by blast
  have "spi_score r = 80"
    using spi_score_eq [OF r band_rows_nonempty] by (simp add: band_rows_scores)
  with r b show "\<exists>r. calculate_student_performance_index (band_rows 80 80 24) 60 = Some r \<and>
        spi_score r = 80 \<and> status r = ''EXCELLENT'' \<and> status_color r = ''#2E7D32''"
    by simp
next
  from status_bands [OF band_rows_nonempty, of 70 60 16 60] obtain r where
    r: "calculate_student_performance_index (band_rows 70 60 16) 60 = Some r"
    and b: "65 \<le> spi_score r \<and> spi_score r < 80 \<longrightarrow>
         status r = ''SATISFACTORY'' \<and> status_color r = ''#F57C00''"
    by blast
  have "spi_score r = 65"
    using spi_score_eq [OF r band_rows_nonempty] by (simp add: band_rows_scores)
  with r b show "\<exists>r. calculate_student_performance_index (band_rows 70 60 16) 60 = Some r \<and>
        spi_score r = 65 \<and> status r = ''SATISFACTORY'' \<and> status_color r = ''#F57C00''"
    by simp
next
  from status_bands [OF band_rows_nonempty, of 60 40 8 60] obtain r where
    r: "calculate_student_performance_index (band_rows 60 40 8) 60 = Some r"
    and b: "50 \<le> spi_score r \<and> spi_score r < 65 \<longrightarrow>
         status r = ''AT RISK'' \<and> status_color r = ''#EF6C00''"
    by blast
  have "spi_score r = 50"
    using spi_score_eq [OF r band_rows_nonempty] by (simp add: band_rows_scores)
  with r b show "\<exists>r. calculate_student_performance_index (band_rows 60 40 8) 60 = Some r \<and>
        spi_score r = 50 \<and> status r = ''AT RISK'' \<and> status_color r = ''#EF6C00''"
    by simp
next
  from status_bands [OF band_rows_nonempty, of 40 40 8 60] obtain r where
    r: "calculate_student_performance_index (band_rows 40 40 8) 60 = Some r"
    and b: "spi_score r < 50 \<longrightarrow> status r = ''CRITICAL'' \<and> status_color r = ''#C62828''"
    by blast
  have "spi_score r = 33"
    using spi_score_eq [OF r band_rows_nonempty] by (simp add: band_rows_scores)
  with r b show "\<exists>r. calculate_student_performance_index (band_rows 40 40 8) 60 = Some r \<and>
        spi_score r = 33 \<and> status r = ''CRITICAL'' \<and> status_color r = ''#C62828''"
    by simp
qed

section \<open>Failed-course penalty\<close>

text \<open>
  C4. For every non-empty record set and passing score, whatever the rounding
  of the arithmetic: the number of failed courses is the number of courses whose
  mean assessment score, as the group mean computes it, is strictly below the
  passing score, and the failure penalty is 0 for no failed course, 5 for
  exactly one and 10 for two or more.
\<close>

theorem failure_penalty_counts_failed_courses:
  assumes "student_data \<noteq> []"
  shows "\<exists>r. calculate_student_performance_index_fp ar student_data passing_score = Some r \<and>
     failed_courses (details r) =
       card {c \<in> course_name ` set student_data.
               course_mean_fp ar student_data c < passing_score} \<and>
     failure_penalty (details r) =
       (if failed_courses (details r) = 0 then 0
        else if failed_courses (details r) = 1 then 5 else 10)"
proof -
  obtain r where r: "calculate_student_performance_index_fp ar student_data passing_score = Some r"
    and f: "failed_courses (details r) = failed_fp ar student_data passing_score"
    and fp: "failure_penalty (details r)
               = failure_penalty_of (failed_fp ar student_data passing_score)"
    by (simp add: spi_fp_unfold [OF assms])
  have "failed_courses (details r) =
       card {c \<in> course_name ` set student_data.
               course_mean_fp ar student_data c < passing_score}"
    using f by (simp only: failed_fp_card)
  moreover have "failure_penalty (details r) =
       (if failed_courses (details r) = 0 then 0
        else if failed_courses (details r) = 1 then 5 else 10)"
    unfolding fp f by (rule failure_penalty_step)
  ultimately show ?thesis using r by blast
qed

text \<open>
  No failed course; one failed course beside a course whose mean is exactly the
  passing score, which does not count; three failed courses out of four. The
  means of these frames are exact in float64 as well.
\<close>

lemma failed_fp_examples:
  "failed_fp exact_arith scenario_rows 60 = 0"
  "failed_fp exact_arith boundary_course_rows 60 = 1"
  "failed_fp exact_arith many_failed_rows 60 = 3"
  by (simp_all add: failed_fp_def scenario_rows_def boundary_course_rows_def
      many_failed_rows_def eval_fp_defs exact_defs)

lemma boundary_course_mean_fp: "course_mean_fp exact_arith boundary_course_rows ''Math'' = 60"
  by (simp add: course_mean_fp_def boundary_course_rows_def mk_row_def exact_defs)

theorem failure_penalty_counts_failed_courses_witness:
  "(\<exists>r. calculate_student_performance_index_fp exact_arith scenario_rows 60 = Some r \<and>
        failed_courses (details r) = 0 \<and> failure_penalty (details r) = 0) \<and>
   (\<exists>r. calculate_student_performance_index_fp exact_arith boundary_course_rows 60 = Some r \<and>
        failed_courses (details r) = 1 \<and> failure_penalty (details r) = 5) \<and>
   (\<exists>r. calculate_student_performance_index_fp exact_arith many_failed_rows 60 = Some r \<and>
        failed_courses (details r) = 3 \<and> failure_penalty (details r) = 10)"
proof (intro conjI)
  have ne: "scenario_rows \<noteq> []" by (simp add: scenario_rows_def)
  from failure_penalty_counts_failed_courses [OF ne, of exact_arith 60] obtain r where
    r: "calculate_student_performance_index_fp exact_arith scenario_rows 60 = Some r"
    and c: "failed_courses (details r) = failed_fp exact_arith scenario_rows 60"
    and p: "failure_penalty (details r) =
       (if failed_courses (details r) = 0 then 0
        else if failed_courses (details r) = 1 then 5 else 10)"
    unfolding failed_fp_card by blast
  from c have "failed_courses (details r) = 0" by (simp only: failed_fp_examples)
  with r p show "\<exists>r. calculate_student_performance_index_fp exact_arith scenario_rows 60 = Some r \<and>
        failed_courses (details r) = 0 \<and> failure_penalty (details r) = 0"
    by simp
next
  have ne: "boundary_course_rows \<noteq> []" by (simp add: boundary_course_rows_def)
  from failure_penalty_counts_failed_courses [OF ne, of exact_arith 60] obtain r where
    r: "calculate_student_performance_index_fp exact_arith boundary_course_rows 60 = Some r"
    and c: "failed_courses (details r) = failed_fp exact_arith boundary_course_rows 60"
    and p: "failure_penalty (details r) =
       (if failed_courses (details r) = 0 then 0
        else if failed_courses (details r) = 1 then 5 else 10)"
    unfolding failed_fp_card by blast
  from c have "failed_courses (details r) = 1" by (simp only: failed_fp_examples)
  with r p show "\<exists>r. calculate_student_performance_index_fp exact_arith boundary_course_rows 60 = Some r \<and>
        failed_courses (details r) = 1 \<and> failure_penalty (details r) = 5"
    by simp
next
  have ne: "many_failed_rows \<noteq> []" by (simp add: many_failed_rows_def)
  from failure_penalty_counts_failed_courses [OF ne, of exact_arith 60] obtain r where
    r: "calculate_student_performance_index_fp exact_arith many_failed_rows 60 = Some r"
    and c: "failed_courses (details r) = failed_fp exact_arith many_failed_rows 60"
    and p: "failure_penalty (details r) =
       (if failed_courses (details r) = 0 then 0
        else if failed_courses (details r) = 1 then 5 else 10)"
    unfolding failed_fp_card by blast
  from c have "failed_courses (details r) = 3" by (simp only: failed_fp_examples)
  with r p show "\<exists>r. calculate_student_performance_index_fp exact_arith many_failed_rows 60 = Some r \<and>
        failed_courses (details r) = 3 \<and> failure_penalty (details r) = 10"
    by simp
qed

text \<open>
  The mean that counts is the computed one. The float64 values nearest to 40.4
  and 79.6 have an exact mean just below 60; their float64 sum is 120 and their
  float64 mean 60, so in float64 the course is not failed at passing score 60.
\<close>

lemma rounded_mean_scores:
  "fl64 (404 / 10) = 5685794529555251/140737488355328"
  "fl64 (796 / 10) = 2800676018271027/35184372088832"
  by (simp_all add: fl64_def norm_exp.simps round_half_even_def Let_def)

lemma rounded_mean_course:
  "course_mean_fp f64_arith rounded_mean_rows ''Math'' = 60"
  "course_mean_fp exact_arith rounded_mean_rows ''Math'' = 16888498602639359/281474976710656"
  "failed_fp f64_arith rounded_mean_rows 60 = 0"
  "failed_fp exact_arith rounded_mean_rows 60 = 1"
  by (simp_all add: course_mean_fp_def failed_fp_def rounded_mean_rows_def rounded_mean_scores
      eval_fp_defs exact_defs)
     (simp_all add: f64_defs)

section \<open>Trend penalty\<close>

text \<open>
  C5. For every non-empty record set, whatever the rounding of the arithmetic:
  with fewer than two distinct assessment numbers the performance change and
  the trend penalty are 0; otherwise the performance change is the mean score
  of the greatest assessment number minus that of the least, and the trend
  penalty is 5 if the change is below -10 and 0 otherwise.
\<close>

theorem trend_penalty_from_endpoints:
  assumes "student_data \<noteq> []"
  shows "\<exists>r. calculate_student_performance_index_fp ar student_data passing_score = Some r \<and>
     (if card (assessment_no ` set student_data) < 2
      then performance_trend (details r) = 0 \<and> trend_penalty (details r) = 0
      else performance_trend (details r) =
             ar_sub ar
               (assessment_mean_fp ar student_data (Max (assessment_no ` set student_data)))
               (assessment_mean_fp ar student_data (Min (assessment_no ` set student_data))) \<and>
           trend_penalty (details r) = (if performance_trend (details r) < - 10 then 5 else 0))"
  unfolding spi_fp_unfold [OF assms]
  by (simp add: change_fp_char [OF assms] trend_penalty_fp_char)

text \<open>
  Group means 80, 85, 60 for the assessment numbers 1, 2, 3 (rows not in
  order): change -20, penalty 5. A change of exactly -10 is not penalised. A
  single assessment number gives change 0. The values of these frames are exact
  in float64 as well.
\<close>

lemma declining_groups:
  "card (assessment_no ` set declining_rows) = 3"
  "Min (assessment_no ` set declining_rows) = 1"
  "Max (assessment_no ` set declining_rows) = 3"
  "assessment_mean declining_rows 1 = 80"
  "assessment_mean declining_rows 2 = 85"
  "assessment_mean declining_rows 3 = 60"
  by (simp_all add: declining_rows_def assessment_mean_def eval_defs card_insert_if)

lemma drop_of_ten_groups:
  "card (assessment_no ` set drop_of_ten_rows) = 2"
  "Min (assessment_no ` set drop_of_ten_rows) = 1"
  "Max (assessment_no ` set drop_of_ten_rows) = 2"
  "assessment_mean drop_of_ten_rows 1 = 80"
  "assessment_mean drop_of_ten_rows 2 = 70"
  by (simp_all add: drop_of_ten_rows_def assessment_mean_def eval_defs card_insert_if)

lemma single_assessment_groups: "card (assessment_no ` set (band_rows 80 80 24)) = 1"
  by (simp add: band_rows_def mk_row_def)

lemma declining_groups_fp:
  "assessment_mean_fp exact_arith declining_rows 1 = 80"
  "assessment_mean_fp exact_arith declining_rows 2 = 85"
  "assessment_mean_fp exact_arith declining_rows 3 = 60"
  by (simp_all add: declining_rows_def assessment_mean_fp_def mk_row_def exact_defs)

lemma drop_of_ten_groups_fp:
  "assessment_mean_fp exact_arith drop_of_ten_rows 1 = 80"
  "assessment_mean_fp exact_arith drop_of_ten_rows 2 = 70"
  by (simp_all add: drop_of_ten_rows_def assessment_mean_fp_def mk_row_def exact_defs)

theorem trend_penalty_from_endpoints_witness:
  "(\<exists>r. calculate_student_performance_index_fp exact_arith declining_rows 60 = Some r \<and>
        performance_trend (details r) = - 20 \<and> trend_penalty (details r) = 5) \<and>
   (\<exists>r. calculate_student_performance_index_fp exact_arith drop_of_ten_rows 60 = Some r \<and>
        performance_trend (details r) = - 10 \<and> trend_penalty (details r) = 0) \<and>
   (\<exists>r. calculate_student_performance_index_fp exact_arith (band_rows 80 80 24) 60 = Some r \<and>
        performance_trend (details r) = 0 \<and> trend_penalty (details r) = 0)"
proof (intro conjI)
  have ne: "declining_rows \<noteq> []" by (simp add: declining_rows_def)
  show "\<exists>r. calculate_student_performance_index_fp exact_arith declining_rows 60 = Some r \<and>
        performance_trend (details r) = - 20 \<and> trend_penalty (details r) = 5"
    using trend_penalty_from_endpoints [OF ne, of exact_arith 60]
    by (auto simp: declining_groups declining_groups_fp exact_arith_ops)
next
  have ne: "drop_of_ten_rows \<noteq> []" by (simp add: drop_of_ten_rows_def)
  show "\<exists>r. calculate_student_performance_index_fp exact_arith drop_of_ten_rows 60 = Some r \<and>
        performance_trend (details r) = - 10 \<and> trend_penalty (details r) = 0"
    using trend_penalty_from_endpoints [OF ne, of exact_arith 60]
    by (auto simp: drop_of_ten_groups drop_of_ten_groups_fp exact_arith_ops)
next
  show "\<exists>r. calculate_student_performance_index_fp exact_arith (band_rows 80 80 24) 60 = Some r \<and>
        performance_trend (details r) = 0 \<and> trend_penalty (details r) = 0"
    using trend_penalty_from_endpoints [OF band_rows_nonempty, of exact_arith 80 80 24 60]
    by (auto simp: single_assessment_groups)
qed

text \<open>
  The change that is tested is the computed one. For the scores 65, 66, 66 and
  55, 56, 56 the exact means differ by exactly 10; in float64 the means are
  rounded, their computed difference is just below -10, and the penalty is
  applied.
\<close>

lemma ten_point_drop_change:
  "change_fp f64_arith ten_point_drop_rows = - (1407374883553281/140737488355328)"
  "change_fp exact_arith ten_point_drop_rows = - 10"
  by (simp_all add: change_fp_def ten_point_drop_rows_def eval_fp_defs exact_defs)
     (simp_all add: f64_defs)

lemma ten_point_drop_trend:
  "trend_penalty_fp f64_arith ten_point_drop_rows = 5"
  "trend_penalty_fp exact_arith ten_point_drop_rows = 0"
  by (simp_all add: trend_penalty_fp_char ten_point_drop_change)
     (simp_all add: ten_point_drop_rows_def mk_row_def card_insert_if)

section \<open>Rows inserted between the first and the last assessment\<close>

lemma squeeze_empty:
  fixes lo hi :: int
  assumes "lo = hi" "\<forall>n \<in> E. lo < n" "\<forall>n \<in> E. n < hi"
  shows "E = {}"
proof (rule ccontr)
  assume "E \<noteq> {}"
  then obtain n where n: "n \<in> E" by blast
  with assms(2,3) have "lo < n" "n < hi" by blast+
  with assms(1) show False by linarith
qed

lemma filter_shuffle_unaffected:
  assumes "zs \<in> shuffles xs ys" "\<forall>y \<in> set ys. \<not> P y"
  shows "filter P zs = filter P xs"
proof -
  have "filter P zs \<in> filter P ` shuffles xs ys" using assms(1) by (rule imageI)
  then have "filter P zs \<in> shuffles (filter P xs) (filter P ys)"
    by (simp only: filter_shuffles)
  moreover have "filter P ys = []" using assms(2) by (simp add: filter_empty_conv)
  ultimately show ?thesis by simp
qed

lemma inserted_between:
  assumes "rows \<noteq> []" "rows' \<in> shuffles rows extra"
    and "\<forall>e \<in> set extra. Min (assessment_no ` set rows) < assessment_no e \<and>
                          assessment_no e < Max (assessment_no ` set rows)"
  shows "Min (assessment_no ` set rows') = Min (assessment_no ` set rows)"
    and "Max (assessment_no ` set rows') = Max (assessment_no ` set rows)"
    and "assessment_mean rows' (Min (assessment_no ` set rows))
           = assessment_mean rows (Min (assessment_no ` set rows))"
    and "assessment_mean rows' (Max (assessment_no ` set rows))
           = assessment_mean rows (Max (assessment_no ` set rows))"
    and "card (assessment_no ` set rows') < 2 \<longleftrightarrow> card (assessment_no ` set rows) < 2"
proof -
  let ?A = "assessment_no ` set rows" and ?E = "assessment_no ` set extra"
  have fin: "finite ?A" "?A \<noteq> {}" using assms(1) by simp_all
  have set': "assessment_no ` set rows' = ?A \<union> ?E"
    using set_shuffles [OF assms(2)] by (simp add: image_Un)
  have lo: "\<forall>n \<in> ?E. Min ?A < n" and hi: "\<forall>n \<in> ?E. n < Max ?A"
    using assms(3) by auto
  have minA: "Min ?A \<in> ?A" and maxA: "Max ?A \<in> ?A"
    using fin by (simp_all add: Min_in Max_in)
  show "Min (assessment_no ` set rows') = Min ?A"
    unfolding set'
  proof (rule Min_eqI)
    show "finite (?A \<union> ?E)" by simp
    show "Min ?A \<in> ?A \<union> ?E" using minA by simp
    fix y assume "y \<in> ?A \<union> ?E"
    then show "Min ?A \<le> y" using lo fin by (auto intro: less_imp_le)
  qed
  show "Max (assessment_no ` set rows') = Max ?A"
    unfolding set'
  proof (rule Max_eqI)
    show "finite (?A \<union> ?E)" by simp
    show "Max ?A \<in> ?A \<union> ?E" using maxA by simp
    fix y assume "y \<in> ?A \<union> ?E"
    then show "y \<le> Max ?A" using hi fin by (auto intro: less_imp_le)
  qed
  have "\<forall>e \<in> set extra. \<not> assessment_no e = Min ?A" using lo by auto
  then show "assessment_mean rows' (Min ?A) = assessment_mean rows (Min ?A)"
    unfolding assessment_mean_def
    by (simp only: filter_shuffle_unaffected [OF assms(2)])
  have "\<forall>e \<in> set extra. \<not> assessment_no e = Max ?A" using hi by auto
  then show "assessment_mean rows' (Max ?A) = assessment_mean rows (Max ?A)"
    unfolding assessment_mean_def
    by (simp only: filter_shuffle_unaffected [OF assms(2)])
  show "card (assessment_no ` set rows') < 2 \<longleftrightarrow> card ?A < 2"
  proof
    assume "card (assessment_no ` set rows') < 2"
    moreover have "card ?A \<le> card (?A \<union> ?E)" by (intro card_mono) simp_all
    ultimately show "card ?A < 2" by (simp add: set')
  next
    assume small: "card ?A < 2"
    have "Min ?A = Max ?A"
    proof (rule ccontr)
      assume "Min ?A \<noteq> Max ?A"
      then have "card {Min ?A, Max ?A} = 2" by simp
      moreover have "card {Min ?A, Max ?A} \<le> card ?A"
        using minA maxA by (intro card_mono) simp_all
      ultimately show False using small by simp
    qed
    then have "?E = {}" using lo hi by (rule squeeze_empty)
    then show "card (assessment_no ` set rows') < 2" using small by (simp add: set')
  qed
qed

lemma change_of_inserted:
  assumes "rows \<noteq> []" "rows' \<in> shuffles rows extra"
    and "\<forall>e \<in> set extra. Min (assessment_no ` set rows) < assessment_no e \<and>
                          assessment_no e < Max (assessment_no ` set rows)"
  shows "change_of rows' = change_of rows"
proof -
  have ne': "rows' \<noteq> []" using assms(1,2) by auto
  have c: "2 \<le> card (assessment_no ` set rows') \<longleftrightarrow> 2 \<le> card (assessment_no ` set rows)"
    using inserted_between(5) [OF assms] by linarith
  show ?thesis
    unfolding change_of_char [OF ne'] change_of_char [OF assms(1)] c
    by (simp add: inserted_between(1-4) [OF assms])
qed

text \<open>
  C7. For every non-empty record set, inserting rows whose assessment number
  lies strictly between the least and the greatest existing one changes neither
  the performance change nor the trend penalty. The new frame is any
  interleaving of the old rows with the inserted ones.
\<close>

theorem trend_penalty_ignores_middle_rows:
  assumes "student_data \<noteq> []" "rows' \<in> shuffles student_data extra"
    and "\<forall>e \<in> set extra. Min (assessment_no ` set student_data) < assessment_no e \<and>
                          assessment_no e < Max (assessment_no ` set student_data)"
  shows "\<exists>r r'. calculate_student_performance_index student_data p = Some r \<and>
     calculate_student_performance_index rows' p = Some r' \<and>
     performance_trend (details r') = performance_trend (details r) \<and>
     trend_penalty (details r') = trend_penalty (details r)"
proof -
  have ne': "rows' \<noteq> []" using assms(1,2) by auto
  have c: "2 \<le> card (assessment_no ` set rows') \<longleftrightarrow> 2 \<le> card (assessment_no ` set student_data)"
    using inserted_between(5) [OF assms] by linarith
  show ?thesis
    unfolding spi_unfold [OF assms(1)] spi_unfold [OF ne']
    by (simp add: trend_penalty_of_char change_of_inserted [OF assms] c)
qed

text \<open>
  Assessments 1 and 3 with scores 80 and 75, and a score of 10 inserted as
  assessment 2.
\<close>

lemma dipped_is_insertion: "dipped_rows \<in> shuffles endpoint_rows middle_dip"
  by (simp add: dipped_rows_def endpoint_rows_def middle_dip_def)

lemma middle_dip_between:
  "\<forall>e \<in> set middle_dip. Min (assessment_no ` set endpoint_rows) < assessment_no e \<and>
                           assessment_no e < Max (assessment_no ` set endpoint_rows)"
  by (simp add: endpoint_rows_def middle_dip_def mk_row_def)

lemma endpoint_bounds:
  "Min (assessment_no ` set endpoint_rows) = 1"
  "Max (assessment_no ` set endpoint_rows) = 3"
  "map assessment_no middle_dip = [2]"
  by (simp_all add: endpoint_rows_def middle_dip_def mk_row_def)

theorem trend_penalty_ignores_middle_rows_witness:
  "endpoint_rows \<noteq> [] \<and> dipped_rows \<in> shuffles endpoint_rows middle_dip \<and>
   Min (assessment_no ` set endpoint_rows) = 1 \<and>
   Max (assessment_no ` set endpoint_rows) = 3 \<and>
   map assessment_no middle_dip = [2] \<and>
   (\<exists>r r'. calculate_student_performance_index endpoint_rows 60 = Some r \<and>
     calculate_student_performance_index dipped_rows 60 = Some r' \<and>
     performance_trend (details r') = performance_trend (details r) \<and>
     trend_penalty (details r') = trend_penalty (details r))"
proof -
  have ne: "endpoint_rows \<noteq> []" by (simp add: endpoint_rows_def)
  from trend_penalty_ignores_middle_rows [OF ne dipped_is_insertion middle_dip_between, of 60]
  show ?thesis using ne dipped_is_insertion endpoint_bounds by (intro conjI)
qed

section \<open>The passing score\<close>

lemma failed_of_mono: "p1 \<le> p2 \<Longrightarrow> failed_of rows p1 \<le> failed_of rows p2"
  unfolding failed_of_def by (rule length_filter_mono) auto

lemma failure_penalty_of_mono: "n \<le> m \<Longrightarrow> failure_penalty_of n \<le> failure_penalty_of m"
  by (simp add: failure_penalty_of_def)

lemma score_of_antimono:
  assumes "p1 \<le> p2"
  shows "score_of rows p2 \<le> score_of rows p1"
proof -
  have "failure_penalty_of (failed_of rows p1) \<le> failure_penalty_of (failed_of rows p2)"
    using assms by (intro failure_penalty_of_mono failed_of_mono)
  then have "real_of_int (failure_penalty_of (failed_of rows p1))
           \<le> real_of_int (failure_penalty_of (failed_of rows p2))"
    by simp
  then show ?thesis unfolding score_of_def by (intro clamp_mono) simp
qed

text \<open>
  C10. For a fixed non-empty record set and passing scores p1 at most p2, the
  failed-course count and the failure penalty at p2 are at least those at p1,
  the components, the base SPI and the trend penalty are the same, and the
  final score at p2 is at most the final score at p1.
\<close>

theorem score_antitone_in_passing_score:
  assumes "student_data \<noteq> []" "p1 \<le> p2"
  shows "\<exists>r1 r2. calculate_student_performance_index student_data p1 = Some r1 \<and>
     calculate_student_performance_index student_data p2 = Some r2 \<and>
     failed_courses (details r1) \<le> failed_courses (details r2) \<and>
     failure_penalty (details r1) \<le> failure_penalty (details r2) \<and>
     base_spi (details r2) = base_spi (details r1) \<and>
     academic_component (details r2) = academic_component (details r1) \<and>
     attendance_component (details r2) = attendance_component (details r1) \<and>
     engagement_component (details r2) = engagement_component (details r1) \<and>
     trend_penalty (details r2) = trend_penalty (details r1) \<and>
     spi_score r2 \<le> spi_score r1"
  unfolding spi_unfold [OF assms(1)]
  by (simp add: failed_of_mono [OF assms(2)] failure_penalty_of_mono score_of_antimono [OF assms(2)])

text \<open>
  With a course mean of exactly 60, raising the passing score from 60 to 61
  fails a second course and lowers the score from 52.5 to 47.5.
\<close>

lemma boundary_scores:
  "score_of boundary_course_rows 40 = 57.5"
  "score_of boundary_course_rows 60 = 52.5"
  "score_of boundary_course_rows 61 = 47.5"
  by (simp_all add: score_of_def base_of_def failed_of_def trend_penalty_of_def change_of_def
      failure_penalty_of_def boundary_course_rows_def eval_defs)

theorem score_antitone_in_passing_score_witness:
  "boundary_course_rows \<noteq> [] \<and> (60::real) \<le> 61 \<and>
   (\<exists>r1 r2. calculate_student_performance_index boundary_course_rows 60 = Some r1 \<and>
     calculate_student_performance_index boundary_course_rows 61 = Some r2 \<and>
     spi_score r1 = 52.5 \<and> spi_score r2 = 47.5 \<and> spi_score r2 \<le> spi_score r1)"
proof -
  have ne: "boundary_course_rows \<noteq> []" by (simp add: boundary_course_rows_def)
  have le: "(60::real) \<le> 61" by simp
  from score_antitone_in_passing_score [OF ne le] obtain r1 r2 where
    r1: "calculate_student_performance_index boundary_course_rows 60 = Some r1"
    and r2: "calculate_student_performance_index boundary_course_rows 61 = Some r2"
    and le12: "spi_score r2 \<le> spi_score r1"
    by blast
  have "spi_score r1 = 52.5" "spi_score r2 = 47.5"
    using spi_score_eq [OF r1 ne] spi_score_eq [OF r2 ne] by (simp_all add: boundary_scores)
  with r1 r2 le12 ne le show ?thesis by blast
qed

section \<open>Cohort aggregation: students at risk\<close>

lemma status_at_risk_iff:
  "status_at_risk (status_of score) \<longleftrightarrow> score < 65"
  by (simp add: status_at_risk_def status_of_def)

lemma status_at_risk_labels:
  "status_at_risk s \<longleftrightarrow> s = ''AT RISK'' \<or> s = ''CRITICAL''"
  by (simp add: status_at_risk_def)

lemma student_rows_nonempty:
  assumes "sid \<in> student_id ` set df"
  shows "filter (\<lambda>r. student_id r = sid) df \<noteq> []"
  using assms by (auto simp: filter_empty_conv)

lemma summarise_student_Some:
  assumes "sid \<in> student_id ` set df"
  shows "\<exists>s r. summarise_student df sid = Some s \<and>
     calculate_student_performance_index (filter (\<lambda>x. student_id x = sid) df) PASSING_SCORE = Some r \<and>
     summary_student_id s = sid \<and> summary_spi_score s = spi_score r \<and>
     summary_status s = status r \<and> summary_status_color s = status_color r \<and>
     at_risk s = status_at_risk (status r) \<and>
     status r = status_of (spi_score r)"
  by (simp add: summarise_student_def Let_def spi_unfold [OF student_rows_nonempty [OF assms]])

text \<open>
Every student of the frame has exactly one row in \<open>student_avg\<close>.
\<close>

lemma student_avg_ids:
  "map summary_student_id (student_avg df) = group_keys student_id df"
proof -
  have "map summary_student_id (List.map_filter (summarise_student df) ks) = ks"
    if "set ks \<subseteq> student_id ` set df" for ks
    using that
  proof (induction ks)
    case Nil
    then show ?case by (simp add: List.map_filter_simps)
  next
    case (Cons k ks)
    then have "k \<in> student_id ` set df" by simp
    from summarise_student_Some [OF this] obtain s where
      "summarise_student df k = Some s" "summary_student_id s = k" by blast
    with Cons show ?case by (simp add: List.map_filter_simps)
  qed
  then show ?thesis by (simp add: student_avg_def set_group_keys)
qed

text \<open>
  C8. A student's \<open>at_risk\<close> flag in the cohort aggregation holds exactly when
  the status computed for the student's rows is AT RISK or CRITICAL, and
  exactly when the student's final score is strictly below 65.
\<close>

theorem at_risk_iff_status_iff_score:
  assumes "s \<in> set (student_avg df)"
  shows "\<exists>r. calculate_student_performance_index
              (filter (\<lambda>x. student_id x = summary_student_id s) df) PASSING_SCORE = Some r \<and>
     summary_status s = status r \<and> summary_spi_score s = spi_score r \<and>
     (at_risk s \<longleftrightarrow> status r = ''AT RISK'' \<or> status r = ''CRITICAL'') \<and>
     (at_risk s \<longleftrightarrow> spi_score r < 65)"
proof -
  from assms obtain sid where sid: "sid \<in> set (group_keys student_id df)"
    and s: "summarise_student df sid = Some s"
    by (auto simp: student_avg_def List.map_filter_def)
  from sid have "sid \<in> student_id ` set df" by (simp add: set_group_keys)
  from summarise_student_Some [OF this] s obtain r where
    "calculate_student_performance_index (filter (\<lambda>x. student_id x = sid) df) PASSING_SCORE = Some r"
    "summary_student_id s = sid" "summary_spi_score s = spi_score r"
    "summary_status s = status r" "at_risk s = status_at_risk (status r)"
    "status r = status_of (spi_score r)"
    by auto
  then show ?thesis
    using status_at_risk_iff [of "spi_score r"] status_at_risk_labels [of "status r"] by auto
qed

text \<open>
  A cohort of two students: the first scores 80 and is not at risk, the second
  scores exactly 50, is AT RISK and is flagged.
\<close>

lemma cohort_ids: "group_keys student_id cohort_rows = [1, 2]"
  by (simp add: cohort_rows_def group_keys_def mk_row_def)

lemma cohort_student_rows:
  "filter (\<lambda>x. student_id x = 1) cohort_rows = [mk_row ''Math'' 1 80 80 24]"
  "filter (\<lambda>x. student_id x = 2) cohort_rows =
     [(mk_row ''Math'' 1 60 40 8)\<lparr>student_id := 2, student_name := ''Kim''\<rparr>]"
  by (simp_all add: cohort_rows_def mk_row_def)

lemma cohort_scores:
  "score_of [mk_row ''Math'' 1 80 80 24] PASSING_SCORE = 80"
  "score_of [(mk_row ''Math'' 1 60 40 8)\<lparr>student_id := 2, student_name := ''Kim''\<rparr>]
     PASSING_SCORE = 50"
  by (simp_all add: score_of_def base_of_def failed_of_def trend_penalty_of_def change_of_def
      failure_penalty_of_def PASSING_SCORE_def eval_defs)

theorem at_risk_iff_status_iff_score_witness:
  "(\<exists>s. s \<in> set (student_avg cohort_rows) \<and> summary_student_id s = 1 \<and>
        summary_spi_score s = 80 \<and> \<not> at_risk s) \<and>
   (\<exists>s. s \<in> set (student_avg cohort_rows) \<and> summary_student_id s = 2 \<and>
        summary_spi_score s = 50 \<and> at_risk s)"
proof -
  have ids: "summary_student_id ` set (student_avg cohort_rows) = {1, 2}"
    using student_avg_ids [of cohort_rows] cohort_ids
    by (metis list.set_map list.simps(15) empty_set)
  have "1 \<in> summary_student_id ` set (student_avg cohort_rows)"
    and "2 \<in> summary_student_id ` set (student_avg cohort_rows)"
    unfolding ids by simp_all
  then obtain s1 s2
    where s1: "s1 \<in> set (student_avg cohort_rows)" "summary_student_id s1 = 1"
      and s2: "s2 \<in> set (student_avg cohort_rows)" "summary_student_id s2 = 2"
    by (metis imageE)
  from at_risk_iff_status_iff_score [OF s1(1)] obtain r1 where r1:
    "calculate_student_performance_index [mk_row ''Math'' 1 80 80 24] PASSING_SCORE = Some r1"
    "summary_spi_score s1 = spi_score r1" "at_risk s1 \<longleftrightarrow> spi_score r1 < 65"
    unfolding s1(2) cohort_student_rows by blast
  have "spi_score r1 = 80"
    using spi_score_eq [OF r1(1)] by (simp add: cohort_scores)
  with r1 s1 have first: "\<exists>s. s \<in> set (student_avg cohort_rows) \<and> summary_student_id s = 1 \<and>
        summary_spi_score s = 80 \<and> \<not> at_risk s"
    by auto
  from at_risk_iff_status_iff_score [OF s2(1)] obtain r2 where r2:
    "calculate_student_performance_index
       [(mk_row ''Math'' 1 60 40 8)\<lparr>student_id := 2, student_name := ''Kim''\<rparr>] PASSING_SCORE
       = Some r2"
    "summary_spi_score s2 = spi_score r2" "at_risk s2 \<longleftrightarrow> spi_score r2 < 65"
    unfolding s2(2) cohort_student_rows by blast
  have "spi_score r2 = 50"
    using spi_score_eq [OF r2(1)] by (simp add: cohort_scores)
  with r2 s2 have "\<exists>s. s \<in> set (student_avg cohort_rows) \<and> summary_student_id s = 2 \<and>
        summary_spi_score s = 50 \<and> at_risk s"
    by auto
  with first show ?thesis ..
qed

section \<open>A uniform rise of all scores, in exact arithmetic\<close>

text \<open>
  Over the reals, raising every assessment score by the same non-negative
  constant shifts every group mean by that constant: the performance change and
  the trend penalty stay the same, no course starts to fail, the base SPI grows,
  and the final score does not decrease. The source computes the group means
  and their difference in binary floating point, where the shifted difference
  can differ from the original one in the last place; the next section
  evaluates such a frame.
\<close>

lemma shift_scores_Nil [simp]: "shift_scores c rows = [] \<longleftrightarrow> rows = []"
  by (simp add: shift_scores_def)

lemma shift_scores_columns [simp]:
  "map attendance_rate (shift_scores c rows) = map attendance_rate rows"
  "map raised_hand_count (shift_scores c rows) = map raised_hand_count rows"
  "map course_name (shift_scores c rows) = map course_name rows"
  "map assessment_no (shift_scores c rows) = map assessment_no rows"
  by (simp_all add: shift_scores_def)

lemma shift_scores_filter:
  "filter (\<lambda>r. course_name r = k) (shift_scores c rows)
     = shift_scores c (filter (\<lambda>r. course_name r = k) rows)"
  "filter (\<lambda>r. assessment_no r = n) (shift_scores c rows)
     = shift_scores c (filter (\<lambda>r. assessment_no r = n) rows)"
  by (simp_all add: shift_scores_def filter_map comp_def)

lemma sum_list_shift:
  "sum_list (map assessment_score (shift_scores c rows))
     = sum_list (map assessment_score rows) + real (length rows) * c"
  by (induction rows) (simp_all add: shift_scores_def algebra_simps)

lemma series_mean_shift:
  assumes "rows \<noteq> []"
  shows "series_mean (map assessment_score (shift_scores c rows))
           = series_mean (map assessment_score rows) + c"
proof -
  have "real (length rows) \<noteq> 0" using assms by simp
  moreover have "length (shift_scores c rows) = length rows" by (simp add: shift_scores_def)
  ultimately show ?thesis
    by (simp add: series_mean_def sum_list_shift add_divide_distrib)
qed

lemma course_mean_shift:
  assumes "k \<in> course_name ` set rows"
  shows "course_mean (shift_scores c rows) k = course_mean rows k + c"
  unfolding course_mean_def shift_scores_filter
  by (rule series_mean_shift [OF group_nonempty [OF assms]])

lemma assessment_mean_shift:
  assumes "n \<in> assessment_no ` set rows"
  shows "assessment_mean (shift_scores c rows) n = assessment_mean rows n + c"
  unfolding assessment_mean_def shift_scores_filter
  by (rule series_mean_shift [OF group_nonempty [OF assms]])

lemma shift_scores_keys [simp]:
  "course_name ` set (shift_scores c rows) = course_name ` set rows"
  "assessment_no ` set (shift_scores c rows) = assessment_no ` set rows"
  using shift_scores_columns(3,4) [of c rows] by (metis set_map)+

lemma change_of_shift:
  assumes "rows \<noteq> []"
  shows "change_of (shift_scores c rows) = change_of rows"
proof -
  let ?A = "assessment_no ` set rows"
  have fin: "finite ?A" "?A \<noteq> {}" using assms by simp_all
  have "Max ?A \<in> ?A" "Min ?A \<in> ?A" using fin by (rule Max_in, rule Min_in)
  then show ?thesis
    using assms by (simp add: change_of_char assessment_mean_shift)
qed

lemma trend_penalty_of_shift:
  assumes "rows \<noteq> []"
  shows "trend_penalty_of (shift_scores c rows) = trend_penalty_of rows"
  by (simp add: trend_penalty_of_char change_of_shift [OF assms])

lemma base_of_shift:
  assumes "rows \<noteq> []"
  shows "base_of (shift_scores c rows) = base_of rows + c * 0.60"
  by (simp add: base_of_def series_mean_shift [OF assms] algebra_simps)

lemma failed_of_shift_le:
  assumes "0 \<le> c"
  shows "failed_of (shift_scores c rows) p \<le> failed_of rows p"
proof -
  have "{k \<in> course_name ` set rows. course_mean (shift_scores c rows) k < p}
        \<subseteq> {k \<in> course_name ` set rows. course_mean rows k < p}"
    using assms by (auto simp: course_mean_shift)
  then have "card {k \<in> course_name ` set rows. course_mean (shift_scores c rows) k < p}
        \<le> card {k \<in> course_name ` set rows. course_mean rows k < p}"
    by (intro card_mono) simp_all
  then show ?thesis by (simp add: failed_of_card)
qed

lemma score_of_shift_mono:
  assumes "rows \<noteq> []" "0 \<le> c"
  shows "score_of rows p \<le> score_of (shift_scores c rows) p"
proof -
  have "failure_penalty_of (failed_of (shift_scores c rows) p)
          \<le> failure_penalty_of (failed_of rows p)"
    by (intro failure_penalty_of_mono failed_of_shift_le assms)
  then have "real_of_int (failure_penalty_of (failed_of (shift_scores c rows) p))
          \<le> real_of_int (failure_penalty_of (failed_of rows p))"
    by simp
  moreover have "0 \<le> c * 0.60" using assms(2) by simp
  ultimately show ?thesis
    unfolding score_of_def base_of_shift [OF assms(1)] trend_penalty_of_shift [OF assms(1)]
    by (intro clamp_mono) linarith
qed

lemma uniform_shift_monotone_exact:
  assumes "student_data \<noteq> []" and "0 < c"
    and "\<forall>k \<in> course_name ` set student_data.
           (course_mean student_data k < p) = (course_mean (shift_scores c student_data) k < p)"
  shows "\<exists>r r'. calculate_student_performance_index student_data p = Some r \<and>
     calculate_student_performance_index (shift_scores c student_data) p = Some r' \<and>
     map attendance_rate (shift_scores c student_data) = map attendance_rate student_data \<and>
     map raised_hand_count (shift_scores c student_data) = map raised_hand_count student_data \<and>
     performance_trend (details r') = performance_trend (details r) \<and>
     trend_penalty (details r') = trend_penalty (details r) \<and>
     failed_courses (details r') = failed_courses (details r) \<and>
     spi_score r \<le> spi_score r'"
proof -
  have ne': "shift_scores c student_data \<noteq> []" using assms(1) by simp
  have "{k \<in> course_name ` set student_data. course_mean (shift_scores c student_data) k < p}
        = {k \<in> course_name ` set student_data. course_mean student_data k < p}"
    using assms(3) by auto
  then have "failed_of (shift_scores c student_data) p = failed_of student_data p"
    by (simp add: failed_of_card)
  moreover have "score_of student_data p \<le> score_of (shift_scores c student_data) p"
    using assms(1,2) by (intro score_of_shift_mono) simp_all
  ultimately show ?thesis
    unfolding spi_unfold [OF assms(1)] spi_unfold [OF ne']
    by (simp add: change_of_shift [OF assms(1)] trend_penalty_of_shift [OF assms(1)])
qed

lemma failing_course_means:
  "course_name ` set failing_course_rows = {''Math'', ''Art''}"
  "course_mean failing_course_rows ''Math'' = 40"
  "course_mean failing_course_rows ''Art'' = 90"
  "course_mean (shift_scores 5 failing_course_rows) ''Math'' = 45"
  "course_mean (shift_scores 5 failing_course_rows) ''Art'' = 95"
  by (auto simp add: failing_course_rows_def course_mean_def shift_scores_def eval_defs)

lemma uniform_shift_example:
  "failing_course_rows \<noteq> [] \<and> (0::real) < 5 \<and>
   (\<forall>k \<in> course_name ` set failing_course_rows.
       (course_mean failing_course_rows k < 60)
         = (course_mean (shift_scores 5 failing_course_rows) k < 60)) \<and>
   (\<exists>r r'. calculate_student_performance_index failing_course_rows 60 = Some r \<and>
     calculate_student_performance_index (shift_scores 5 failing_course_rows) 60 = Some r' \<and>
     spi_score r \<le> spi_score r')"
proof -
  have ne: "failing_course_rows \<noteq> []" by (simp add: failing_course_rows_def)
  have pos: "(0::real) < 5" by simp
  have nc: "\<forall>k \<in> course_name ` set failing_course_rows.
       (course_mean failing_course_rows k < 60)
         = (course_mean (shift_scores 5 failing_course_rows) k < 60)"
    by (simp add: failing_course_means)
  from uniform_shift_monotone_exact [OF ne pos nc] obtain r r' where
    "calculate_student_performance_index failing_course_rows 60 = Some r"
    "calculate_student_performance_index (shift_scores 5 failing_course_rows) 60 = Some r'"
    "spi_score r \<le> spi_score r'"
    by blast
  with ne pos nc show ?thesis by blast
qed

section \<open>A uniform rise of all scores, in float64\<close>

text \<open>
  In float64 the means of the raised scores are rounded anew, so the
  performance change is not preserved. The frame has the scores 10, 11, 11 for
  assessment 1 and 0, 1, 1 for assessment 2, in one course that fails before and
  after. Its change is exactly -10, without penalty. With every score raised by
  8 the group means are 56/3 and 26/3 rounded, their difference is below -10,
  and the trend penalty of 5 outweighs the gain of 4.8 in the base SPI.
\<close>

lemma dropping_groups:
  "assessment_mean_fp f64_arith dropping_rows 1 = 6004799503160661/562949953421312"
  "assessment_mean_fp f64_arith dropping_rows 2 = 6004799503160661/9007199254740992"
  "assessment_mean_fp f64_arith (shift_scores 8 dropping_rows) 1 = 5254199565265579/281474976710656"
  "assessment_mean_fp f64_arith (shift_scores 8 dropping_rows) 2 = 4878899596318037/562949953421312"
  by (simp_all add: assessment_mean_fp_def dropping_rows_def shift_scores_def mk_row_def f64_defs)

lemma dropping_change:
  "change_fp f64_arith dropping_rows = - 10"
  "change_fp f64_arith (shift_scores 8 dropping_rows) = - (5629499534213121/562949953421312)"
  by (simp_all add: change_fp_def dropping_rows_def shift_scores_def eval_fp_defs f64_defs)

lemma dropping_base:
  "base_fp f64_arith dropping_rows = 6108006994621235/140737488355328"
  "base_fp f64_arith (shift_scores 8 dropping_rows) = 3391773469363405/70368744177664"
  by (simp_all add: base_fp_def dropping_rows_def shift_scores_def mk_row_def f64_defs)

lemma dropping_failed:
  "failed_fp f64_arith dropping_rows 60 = 1"
  "failed_fp f64_arith (shift_scores 8 dropping_rows) 60 = 1"
  by (simp_all add: failed_fp_def dropping_rows_def shift_scores_def eval_fp_defs f64_defs)

lemma dropping_trend:
  "trend_penalty_fp f64_arith dropping_rows = 0"
  "trend_penalty_fp f64_arith (shift_scores 8 dropping_rows) = 5"
  by (simp_all add: trend_penalty_fp_char dropping_change)
     (simp_all add: dropping_rows_def shift_scores_def mk_row_def card_insert_if)

lemma dropping_score:
  "score_fp f64_arith dropping_rows 60 = 5404319552844595/140737488355328"
  "score_fp f64_arith (shift_scores 8 dropping_rows) 60 = 2688086027586765/70368744177664"
  by (simp_all add: score_fp_def dropping_base dropping_failed dropping_trend
      failure_penalty_of_def)
     (simp_all add: f64_defs)

lemma dropping_course_means:
  "course_mean_fp f64_arith dropping_rows ''Math'' = 6380099472108203/1125899906842624"
  "course_mean_fp f64_arith (shift_scores 8 dropping_rows) ''Math''
     = 7693649363424597/562949953421312"
  by (simp_all add: course_mean_fp_def dropping_rows_def shift_scores_def mk_row_def f64_defs)

text \<open>
  C6. Raising every assessment score of this frame by 8, with attendance and
  raised hands fixed and the one course failed before and after, lowers the
  final score from 38.4 to 38.2 (the float64 values nearest to them): the
  performance change goes from -10 to just below -10 and the trend penalty from
  0 to 5.
\<close>

theorem uniform_shift_lowers_score_float64:
  "map_option spi_score
     (calculate_student_performance_index_fp f64_arith dropping_rows 60)
     = Some (5404319552844595/140737488355328) \<and>
   map_option spi_score
     (calculate_student_performance_index_fp f64_arith (shift_scores 8 dropping_rows) 60)
     = Some (2688086027586765/70368744177664) \<and>
   (2688086027586765/70368744177664 :: real) < 5404319552844595/140737488355328 \<and>
   map_option (performance_trend \<circ> details)
     (calculate_student_performance_index_fp f64_arith dropping_rows 60) = Some (- 10) \<and>
   map_option (performance_trend \<circ> details)
     (calculate_student_performance_index_fp f64_arith (shift_scores 8 dropping_rows) 60)
     = Some (- (5629499534213121/562949953421312)) \<and>
   map_option (trend_penalty \<circ> details)
     (calculate_student_performance_index_fp f64_arith dropping_rows 60) = Some 0 \<and>
   map_option (trend_penalty \<circ> details)
     (calculate_student_performance_index_fp f64_arith (shift_scores 8 dropping_rows) 60)
     = Some 5 \<and>
   map_option (failed_courses \<circ> details)
     (calculate_student_performance_index_fp f64_arith dropping_rows 60) = Some 1 \<and>
   map_option (failed_courses \<circ> details)
     (calculate_student_performance_index_fp f64_arith (shift_scores 8 dropping_rows) 60)
     = Some 1"
proof -
  have ne: "dropping_rows \<noteq> []" "shift_scores 8 dropping_rows \<noteq> []"
    by (simp_all add: dropping_rows_def)
  show ?thesis
    unfolding spi_fp_unfold [OF ne(1)] spi_fp_unfold [OF ne(2)]
    by (simp add: dropping_score dropping_change dropping_trend dropping_failed)
qed

end
